theory Spec2Isabelle
  imports Main
begin

section \<open>JavaScript strings and numbers\<close>

text \<open>
  The engine is \<^verbatim>\<open>src/main/src/terminal/Terminal.ts\<close>. Its strings are sequences of
  UTF-16 code units; a \<^typ>\<open>char\<close> here stands for one code unit below 256, so the
  model covers the strings whose code units are all below 256. In that range the white
  space of \<^verbatim>\<open>String.prototype.trim\<close>, of the regular expression class \<^verbatim>\<open>\s\<close> and of
  \<^verbatim>\<open>parseInt\<close> is TAB, LF, VT, FF, CR, SPACE and NBSP.
\<close>

definition isWhiteSpace :: "char \<Rightarrow> bool" where
  "isWhiteSpace c = (of_char c \<in> {9, 10, 11, 12, 13, 32, 160 :: nat})"

text \<open>\<^verbatim>\<open>s.trim()\<close>\<close>

definition trim :: "string \<Rightarrow> string" where
  "trim s = rev (dropWhile isWhiteSpace (rev (dropWhile isWhiteSpace s)))"

text \<open>\<^verbatim>\<open>s.indexOf(c)\<close> for a one-character needle: the first position, or \<open>-1\<close>.\<close>

fun indexOf :: "string \<Rightarrow> char \<Rightarrow> int" where
  "indexOf [] c = -1"
| "indexOf (x # xs) c =
     (if x = c then 0 else (let i = indexOf xs c in if i = -1 then -1 else i + 1))"

text \<open>\<^verbatim>\<open>s.slice(start)\<close>: a negative start counts from the end, clamped at the front.\<close>

definition slice :: "string \<Rightarrow> int \<Rightarrow> string" where
  "slice s start =
     (let len = int (length s);
          from = (if start < 0 then max (len + start) 0 else min start len)
      in drop (nat from) s)"

text \<open>\<^verbatim>\<open>s.substring(start)\<close>: a negative start is clamped to 0.\<close>

definition substring :: "string \<Rightarrow> int \<Rightarrow> string" where
  "substring s start = drop (nat (min (max start 0) (int (length s)))) s"

text \<open>
  \<^verbatim>\<open>s.split(/\s+/)\<close>: the pieces between maximal runs of white space; a run at either
  end leaves an empty piece there, and the empty string gives one empty piece.
\<close>

function splitWhiteSpace :: "string \<Rightarrow> string list" where
  "splitWhiteSpace [] = [[]]"
| "splitWhiteSpace (c # cs) =
     (if isWhiteSpace c then [] # splitWhiteSpace (dropWhile isWhiteSpace cs)
      else (case splitWhiteSpace cs of
              [] \<Rightarrow> [[c]]
            | p # ps \<Rightarrow> (c # p) # ps))"
  by pat_completeness auto
termination
  by (relation "measure length") (auto simp: le_imp_less_Suc length_dropWhile_le)

text \<open>\<^verbatim>\<open>s.split(" ")\<close>: the pieces between single SPACE characters.\<close>

fun splitSpace :: "string \<Rightarrow> string list" where
  "splitSpace [] = [[]]"
| "splitSpace (c # cs) =
     (if c = CHR '' '' then [] # splitSpace cs
      else (case splitSpace cs of
              [] \<Rightarrow> [[c]]
            | p # ps \<Rightarrow> (c # p) # ps))"

text \<open>
  A JavaScript number as far as this module needs it: \<open>NaN\<close>, the two infinities, or
  a finite double whose value is an integer, \<open>Num\<close> of that integer. The two zeros
  are not told apart: \<open>Num 0\<close> stands for both.
\<close>

datatype jsnum = NaN | Num int | Infinity | NegInfinity

definition isDigit :: "char \<Rightarrow> bool" where
  "isDigit c = (48 \<le> (of_char c :: nat) \<and> (of_char c :: nat) \<le> 57)"

definition digitValue :: "char \<Rightarrow> int" where
  "digitValue c = int (of_char c) - 48"

definition digitsValue :: "string \<Rightarrow> int" where
  "digitsValue ds = foldl (\<lambda>acc d. acc * 10 + digitValue d) 0 ds"

text \<open>The number of binary digits of a positive integer.\<close>

function bitLength :: "int \<Rightarrow> nat" where
  "bitLength n = (if n \<le> 0 then 0 else Suc (bitLength (n div 2)))"
  by pat_completeness auto

termination
  by (relation "measure nat") auto

declare bitLength.simps [simp del]

text \<open>
  The double nearest to an integer, which is what a number holds: below \<open>2^53\<close> in
  magnitude the integer itself; above, the 53 leading binary digits, rounded to the
  nearest with ties to the even one, and the rest zero; an infinity when that reaches
  \<open>2^1024\<close>.
\<close>

definition roundToDouble :: "int \<Rightarrow> jsnum" where
  "roundToDouble n =
     (let a = \<bar>n\<bar>
      in if a < 2 ^ 53 then Num n
         else (let e = bitLength a - 53;
                   q = a div 2 ^ e;
                   r = a mod 2 ^ e;
                   half = 2 ^ (e - 1);
                   rounded = (if r > half \<or> (r = half \<and> odd q) then q + 1 else q);
                   v = rounded * 2 ^ e
               in if v \<ge> 2 ^ 1024 then (if n < 0 then NegInfinity else Infinity)
                  else Num (if n < 0 then - v else v)))"

text \<open>
  \<^verbatim>\<open>Number.parseInt(s, 10)\<close>: leading white space is skipped, one sign is accepted,
  then the longest run of decimal digits is read; with no digit there the result is
  \<open>NaN\<close>, else the double nearest to the integer the digits spell. Whatever follows
  the digits is ignored.
\<close>

definition parseInt10 :: "string \<Rightarrow> jsnum" where
  "parseInt10 s =
     (let s1 = dropWhile isWhiteSpace s;
          neg = (case s1 of [] \<Rightarrow> False | c # _ \<Rightarrow> c = CHR ''-'');
          s2 = (case s1 of [] \<Rightarrow> []
                | c # cs \<Rightarrow> if c = CHR ''-'' \<or> c = CHR ''+'' then cs else s1);
          ds = takeWhile isDigit s2
      in if ds = [] then NaN
         else roundToDouble (if neg then - digitsValue ds else digitsValue ds))"

datatype js_error = TypeError | SyntaxError

section \<open>Configuration\<close>

text \<open>
  The configuration types are declared in \<^verbatim>\<open>config/Config.ts\<close>, which is not among
  the sources. Modelled from the spec: a frame rule is one of always-frame, never-frame
  and frame-if-output-line-count-exceeds-threshold (section 4.4); the field names are the
  ones \<^verbatim>\<open>#commandNeedsFrame\<close> and \<^verbatim>\<open>#commandLineActionMatches\<close> read.
\<close>

datatype FrameRule = always_frame | never_frame | frame_if_lines

datatype MatchType = name | regexp

record CommandLineAction =
  match :: string
  matchType :: MatchType
  frameRule :: FrameRule
  frameRuleLines :: int

record GeneralConfig =
  gcFrameRule :: FrameRule
  gcFrameRuleLines :: int
  scrollbackMaxLines :: int
  scrollbackMaxFrames :: int

record ConfigDatabase =
  getCommandLineActionConfig :: "CommandLineAction list option"
  getGeneralConfig :: GeneralConfig

text \<open>
  The regular expression engine is a parameter: \<open>rx pattern text\<close> is
  \<^verbatim>\<open>(new RegExp(pattern)).test(text)\<close>, and \<open>None\<close> is the \<^verbatim>\<open>SyntaxError\<close> the
  constructor throws on a pattern that does not compile.
\<close>

type_synonym RegExpTest = "string \<Rightarrow> string \<Rightarrow> bool option"

text \<open>
  The loop of \<^verbatim>\<open>#commandLineActionMatches\<close> over the matcher's parts: every part has
  to be there in the command, at the same position, and equal.
\<close>

fun namePartsMatch :: "string list \<Rightarrow> string list \<Rightarrow> bool" where
  "namePartsMatch [] commandParts = True"
| "namePartsMatch (m # ms) [] = False"
| "namePartsMatch (m # ms) (c # cs) = (if m \<noteq> c then False else namePartsMatch ms cs)"

definition commandLineActionMatches ::
  "RegExpTest \<Rightarrow> string \<Rightarrow> CommandLineAction \<Rightarrow> js_error + bool" where
  "commandLineActionMatches rx command cla =
     (let cleanCommandLine = trim command;
          commandParts = splitWhiteSpace (trim command)
      in if matchType cla = name
         then Inr (namePartsMatch (splitWhiteSpace (match cla)) commandParts)
         else (case rx (match cla) cleanCommandLine of
                 None \<Rightarrow> Inl SyntaxError
               | Some b \<Rightarrow> Inr b))"

text \<open>The \<^verbatim>\<open>switch\<close> on a frame rule, the same in the loop and for the global rule.\<close>

definition frameRuleDecision :: "FrameRule \<Rightarrow> int \<Rightarrow> int \<Rightarrow> bool" where
  "frameRuleDecision rule ruleLines linesOfOutput =
     (case rule of
        always_frame \<Rightarrow> True
      | never_frame \<Rightarrow> False
      | frame_if_lines \<Rightarrow> linesOfOutput \<noteq> -1 \<and> linesOfOutput > ruleLines)"

text \<open>
  The \<^verbatim>\<open>for\<close> loop of \<^verbatim>\<open>#commandNeedsFrame\<close> over the per-command rules: \<open>Inr (Some b)\<close>
  is a \<^verbatim>\<open>return b\<close> from inside the loop, \<open>Inr None\<close> the loop running to its end.
\<close>

fun commandLineActionsLoop ::
  "RegExpTest \<Rightarrow> string \<Rightarrow> int \<Rightarrow> CommandLineAction list \<Rightarrow> js_error + bool option" where
  "commandLineActionsLoop rx commandLine linesOfOutput [] = Inr None"
| "commandLineActionsLoop rx commandLine linesOfOutput (cla # clas) =
     (case commandLineActionMatches rx commandLine cla of
        Inl e \<Rightarrow> Inl e
      | Inr True \<Rightarrow> Inr (Some (frameRuleDecision (frameRule cla) (frameRuleLines cla) linesOfOutput))
      | Inr False \<Rightarrow> commandLineActionsLoop rx commandLine linesOfOutput clas)"

text \<open>
  \<^verbatim>\<open>#commandNeedsFrame(commandLine, linesOfOutput=-1)\<close>. The command line may be
  \<^verbatim>\<open>null\<close> (\<open>None\<close>), and so may the configuration database.
\<close>

definition commandNeedsFrame ::
  "RegExpTest \<Rightarrow> ConfigDatabase option \<Rightarrow> string option \<Rightarrow> int \<Rightarrow> js_error + bool" where
  "commandNeedsFrame rx configDatabase commandLine linesOfOutput =
     (case commandLine of
        None \<Rightarrow> Inr False
      | Some cl \<Rightarrow>
          if trim cl = [] then Inr False
          else (case configDatabase of
                  None \<Rightarrow> Inr False
                | Some db \<Rightarrow>
                    (let commandLineActions =
                           (case getCommandLineActionConfig db of None \<Rightarrow> [] | Some clas \<Rightarrow> clas)
                     in case commandLineActionsLoop rx cl linesOfOutput commandLineActions of
                          Inl e \<Rightarrow> Inl e
                        | Inr (Some b) \<Rightarrow> Inr b
                        | Inr None \<Rightarrow>
                            (let generalConfig = getGeneralConfig db
                             in Inr (frameRuleDecision (gcFrameRule generalConfig)
                                       (gcFrameRuleLines generalConfig) linesOfOutput)))))"

section \<open>The terminal's state\<close>

text \<open>
  \<^verbatim>\<open>TerminalBlock.ts\<close>, \<^verbatim>\<open>DecoratedFrame.ts\<close> and \<^verbatim>\<open>SpacerFrame.ts\<close> are not among
  the sources. Modelled from the spec: a terminal block holds the rows moved out of the
  grid in order, oldest first, the command line text and the exit code, which is
  \<^verbatim>\<open>null\<close> until known (section 3); \<open>hasEmulator\<close> records whether
  \<^verbatim>\<open>setEmulator\<close> was last given the emulator or \<^verbatim>\<open>null\<close>. Every other kind of
  block is \<open>ExtensionBlock\<close>.
\<close>

type_synonym Line = string

record TerminalBlock =
  scrollback :: "Line list"
  blockCommandLine :: "string option"
  blockReturnCode :: "jsnum option"
  hasEmulator :: bool

datatype Block = TerminalBlockOf TerminalBlock | ExtensionBlock

datatype FrameClass = DecoratedFrame | SpacerFrame

record BlockFrame =
  frameClass :: FrameClass
  frameTag :: "int option"
  frameDefaultTitle :: "string option"
  frameBlock :: "Block option"

text \<open>
  Modelled from the spec: the methods of the absent \<^verbatim>\<open>TerminalBlock\<close> that the
  engine calls. \<^verbatim>\<open>deleteTopLines(n)\<close> discards the \<open>n\<close> oldest rows (section 4.4:
  "oldest rows of that frame discarded"); \<^verbatim>\<open>takeScrollbackFrom(row)\<close> hands over the
  rows from \<open>row\<close> on and keeps the ones before (section 3: "ownership transfer, not
  copy").
\<close>

definition getScrollbackLength :: "TerminalBlock \<Rightarrow> int" where
  "getScrollbackLength tb = int (length (scrollback tb))"

definition deleteTopLines :: "int \<Rightarrow> TerminalBlock \<Rightarrow> TerminalBlock" where
  "deleteTopLines lineCount tb = tb\<lparr>scrollback := drop (nat lineCount) (scrollback tb)\<rparr>"

definition takeScrollbackFrom :: "int \<Rightarrow> TerminalBlock \<Rightarrow> Line list \<times> TerminalBlock" where
  "takeScrollbackFrom row tb =
     (drop (nat row) (scrollback tb), tb\<lparr>scrollback := take (nat row) (scrollback tb)\<rparr>)"

text \<open>\<^verbatim>\<open>new TerminalBlock(...)\<close>, then \<^verbatim>\<open>setEmulator\<close> when an emulator is given.\<close>

definition newTerminalBlock :: "bool \<Rightarrow> TerminalBlock" where
  "newTerminalBlock withEmulator =
     \<lparr>scrollback = [], blockCommandLine = None, blockReturnCode = None,
       hasEmulator = withEmulator\<rparr>"

datatype ApplicationMode =
    APPLICATION_MODE_NONE
  | APPLICATION_MODE_OUTPUT_BRACKET_START
  | APPLICATION_MODE_OUTPUT_BRACKET_END
  | APPLICATION_MODE_REQUEST_FRAME
  | APPLICATION_MODE_SHOW_FILE

text \<open>
  \<^verbatim>\<open>TermApi.ApplicationModeResponse\<close> (package \<^verbatim>\<open>term-api\<close>, not among the sources):
  an action and, from the download handler only, data left over.
\<close>

datatype ApplicationModeResponseAction = CONTINUE | ABORT | PAUSE

type_synonym ApplicationModeResponse = "ApplicationModeResponseAction \<times> string option"

text \<open>The keys of \<^verbatim>\<open>TerminalEnvironment\<close> that the bracket handlers write.\<close>

datatype EnvKey =
    EXTRATERM_CURRENT_COMMAND_LINE
  | EXTRATERM_CURRENT_COMMAND
  | EXTRATERM_EXIT_CODE
  | EXTRATERM_LAST_COMMAND_LINE
  | EXTRATERM_LAST_COMMAND

record BulkFile =
  getMetadata :: "(string \<times> string) list"
  getTotalSize :: int

text \<open>
  A \<^verbatim>\<open>BulkFileUploader\<close> (not among the sources) as far as the engine drives it: the
  file it was made for, whether it was given a pty, and whether \<^verbatim>\<open>upload()\<close> and
  \<^verbatim>\<open>abort()\<close> have been called.
\<close>

record BulkFileUploader =
  uploaderFile :: BulkFile
  uploaderHasPty :: bool
  uploadCalled :: bool
  abortCalled :: bool

record UploadProgressBar =
  progressFilename :: "string option"
  progressTotal :: "int option"
  showDelayedCalled :: bool

text \<open>
  The fields of class \<^verbatim>\<open>Terminal\<close> that the handlers below read or write. Frames are
  objects: \<open>frameHeap\<close> maps a reference to the frame's fields, \<open>blockFrames\<close> is the
  array \<^verbatim>\<open>#blockFrames\<close> of references, and \<^verbatim>\<open>#lastCommandTerminalViewer\<close> is a
  reference that may or may not still be in the array. A block belongs to one frame at
  a time, so it is stored in its frame. Each registered input stream filter is the
  closure made in \<^verbatim>\<open>#handleRequestFrame\<close>, represented by the reference of the
  uploader it captures. \<open>pty\<close> is \<open>None\<close> for \<^verbatim>\<open>null\<close>, else what was written to
  the pty so far. The emulator, with the download handler built over it, is a
  collaborator of unknown state \<open>'e\<close>. Widgets and the scroll area are left out.
\<close>

record 'e Terminal =
  cookie :: string
  applicationMode :: ApplicationMode
  applicationModeData :: "string option"
  bracketStyle :: "string option"
  lastCommandLine :: "string option"
  lastCommandTerminalRow :: int
  lastCommandTerminalViewer :: "nat option"
  blockFrames :: "nat list"
  frameHeap :: "nat \<Rightarrow> BlockFrame"
  nextFrameRef :: nat
  tagsIssued :: nat
  emulator :: 'e
  environment :: "EnvKey \<rightharpoonup> string"
  pty :: "string list option"
  inputStreamFilters :: "nat list"
  uploaderHeap :: "nat \<Rightarrow> BulkFileUploader"
  nextUploaderRef :: nat
  uploadProgressBar :: "UploadProgressBar option"

text \<open>
  What the terminal is constructed with, and the methods of the emulator and of the
  download handler that it calls; none of them is among the sources, so they are
  parameters. An emulator method is a function of the emulator's state.
\<close>

record 'e Collaborators =
  regExpTest :: RegExpTest
  configDatabase :: "ConfigDatabase option"
  frameFinder :: "(string option \<Rightarrow> BulkFile option) option"
  nextTag :: "nat \<Rightarrow> int"
  cursorX :: "'e \<Rightarrow> int"
  cursorY :: "'e \<Rightarrow> int"
  getLineText :: "'e \<Rightarrow> int \<Rightarrow> string"
  getCursorRow :: "'e \<Rightarrow> int"
  newLine :: "'e \<Rightarrow> 'e"
  carriageReturn :: "'e \<Rightarrow> 'e"
  moveRowsAboveCursorToScrollback :: "'e \<Rightarrow> 'e"
  flushRenderQueue :: "'e \<Rightarrow> 'e"
  downloadHandleStart :: "string list \<Rightarrow> 'e \<Rightarrow> ApplicationModeResponse \<times> 'e"
  downloadHandleData :: "string \<Rightarrow> 'e \<Rightarrow> ApplicationModeResponse \<times> 'e"
  downloadHandleStop :: "'e \<Rightarrow> ApplicationModeResponse \<times> 'e"

text \<open>
  A handler that can throw returns \<open>Inl (error, state)\<close>, with the state as the
  assignments before the \<^verbatim>\<open>throw\<close> left it, or \<open>Inr state\<close>.
\<close>

type_synonym 'e outcome = "(js_error \<times> 'e Terminal) + 'e Terminal"

section \<open>Frames\<close>

definition getBlock :: "'e Terminal \<Rightarrow> nat \<Rightarrow> Block option" where
  "getBlock s frame = frameBlock (frameHeap s frame)"

definition setBlock :: "nat \<Rightarrow> Block option \<Rightarrow> 'e Terminal \<Rightarrow> 'e Terminal" where
  "setBlock frame b s =
     s\<lparr>frameHeap := (frameHeap s)(frame := (frameHeap s frame)\<lparr>frameBlock := b\<rparr>)\<rparr>"

definition isTerminalBlock :: "Block option \<Rightarrow> bool" where
  "isTerminalBlock b = (case b of Some (TerminalBlockOf tb) \<Rightarrow> True | _ \<Rightarrow> False)"

text \<open>\<^verbatim>\<open>appendBlockFrame\<close>: the frame is pushed onto \<^verbatim>\<open>#blockFrames\<close>.\<close>

definition appendBlockFrame :: "nat \<Rightarrow> 'e Terminal \<Rightarrow> 'e Terminal" where
  "appendBlockFrame blockFrame s = s\<lparr>blockFrames := blockFrames s @ [blockFrame]\<rparr>"

text \<open>\<^verbatim>\<open>new DecoratedFrame(this.#uiStyle, this.#nextTag())\<close>: a fresh frame with no block.\<close>

definition newDecoratedFrame :: "'e Collaborators \<Rightarrow> 'e Terminal \<Rightarrow> nat \<times> 'e Terminal" where
  "newDecoratedFrame env s =
     (let frame = nextFrameRef s
      in (frame,
          s\<lparr>frameHeap := (frameHeap s)(frame :=
               \<lparr>frameClass = DecoratedFrame, frameTag = Some (nextTag env (tagsIssued s)),
                frameDefaultTitle = None, frameBlock = None\<rparr>),
            nextFrameRef := Suc frame,
            tagsIssued := Suc (tagsIssued s)\<rparr>))"

text \<open>
  \<^verbatim>\<open>#createFramedTerminalBlock\<close>: a fresh spacer frame holding a fresh terminal block
  that is given the emulator.
\<close>

definition createFramedTerminalBlock :: "'e Terminal \<Rightarrow> nat \<times> 'e Terminal" where
  "createFramedTerminalBlock s =
     (let spacerFrame = nextFrameRef s
      in (spacerFrame,
          s\<lparr>frameHeap := (frameHeap s)(spacerFrame :=
               \<lparr>frameClass = SpacerFrame, frameTag = None, frameDefaultTitle = None,
                frameBlock = Some (TerminalBlockOf (newTerminalBlock True))\<rparr>),
            nextFrameRef := Suc spacerFrame\<rparr>))"

text \<open>
  \<^verbatim>\<open>#closeLastTerminalFrame\<close>: the rows above the cursor are sent to the scrollback,
  and the last frame's terminal block, when there is one, lets go of the emulator.
\<close>

definition closeLastTerminalFrame :: "'e Collaborators \<Rightarrow> 'e Terminal \<Rightarrow> 'e Terminal" where
  "closeLastTerminalFrame env s =
     (let s1 = s\<lparr>emulator := flushRenderQueue env (moveRowsAboveCursorToScrollback env (emulator s))\<rparr>
      in if blockFrames s1 \<noteq> []
         then (let lastBlockFrame = last (blockFrames s1)
               in case getBlock s1 lastBlockFrame of
                    Some (TerminalBlockOf tb) \<Rightarrow>
                      setBlock lastBlockFrame (Some (TerminalBlockOf (tb\<lparr>hasEmulator := False\<rparr>))) s1
                  | _ \<Rightarrow> s1)
         else s1)"

text \<open>\<^verbatim>\<open>#moveCursorToFreshLine\<close>\<close>

definition moveCursorToFreshLine :: "'e Collaborators \<Rightarrow> 'e Terminal \<Rightarrow> 'e Terminal" where
  "moveCursorToFreshLine env s =
     (let e = emulator s
      in if cursorX env e \<noteq> 0 \<and> trim (getLineText env e (cursorY env e)) \<noteq> []
         then s\<lparr>emulator := carriageReturn env (newLine env e)\<rparr>
         else s)"

text \<open>
  \<^verbatim>\<open>#findEmptyDecoratedFrame\<close>: the loop runs \<open>i\<close> down from \<open>len - 1\<close> while
  \<^verbatim>\<open>i !== 0\<close>, so the frame at index 0 is never looked at; with an empty array the
  first read is \<^verbatim>\<open>this.#blockFrames[-1].frame\<close>, a \<^verbatim>\<open>TypeError\<close>.
\<close>

fun findEmptyDecoratedFrameLoop :: "'e Terminal \<Rightarrow> nat \<Rightarrow> nat option" where
  "findEmptyDecoratedFrameLoop s 0 = None"
| "findEmptyDecoratedFrameLoop s (Suc i) =
     (let frame = blockFrames s ! Suc i
      in if frameClass (frameHeap s frame) = DecoratedFrame \<and> getBlock s frame = None
         then Some frame
         else findEmptyDecoratedFrameLoop s i)"

definition findEmptyDecoratedFrame :: "'e Terminal \<Rightarrow> js_error + nat option" where
  "findEmptyDecoratedFrame s =
     (let len = length (blockFrames s)
      in if len = 0 then Inl TypeError else Inr (findEmptyDecoratedFrameLoop s (len - 1)))"

text \<open>
  \<^verbatim>\<open>#findLastBareTerminalBlockFrame\<close>: the loop runs \<open>i\<close> down from \<open>len - 1\<close> to 0;
  the second argument here is \<open>i + 1\<close>.
\<close>

fun findLastBareTerminalBlockFrameLoop :: "'e Terminal \<Rightarrow> nat \<Rightarrow> nat option" where
  "findLastBareTerminalBlockFrameLoop s 0 = None"
| "findLastBareTerminalBlockFrameLoop s (Suc i) =
     (let frame = blockFrames s ! i
      in if frameClass (frameHeap s frame) = SpacerFrame \<and> isTerminalBlock (getBlock s frame)
         then Some frame
         else findLastBareTerminalBlockFrameLoop s i)"

definition findLastBareTerminalBlockFrame :: "'e Terminal \<Rightarrow> nat option" where
  "findLastBareTerminalBlockFrame s =
     findLastBareTerminalBlockFrameLoop s (length (blockFrames s))"

text \<open>\<^verbatim>\<open>this.#blockFrames.findIndex(bf => bf.frame === frame)\<close>, \<open>-1\<close> when not there.\<close>

fun findIndex :: "nat list \<Rightarrow> nat \<Rightarrow> int" where
  "findIndex [] frame = -1"
| "findIndex (f # fs) frame =
     (if f = frame then 0 else (let i = findIndex fs frame in if i = -1 then -1 else i + 1))"

text \<open>
  \<^verbatim>\<open>array.splice(index, 1)\<close>: a negative index counts from the end, so \<open>-1\<close> removes
  the last element.
\<close>

definition spliceOne :: "int \<Rightarrow> 'a list \<Rightarrow> 'a list" where
  "spliceOne index xs =
     (let len = int (length xs);
          start = (if index < 0 then max (len + index) 0 else min index len)
      in take (nat start) xs @ drop (nat start + 1) xs)"

text \<open>
  \<^verbatim>\<open>#removeFrameFromScrollArea\<close>: \<^verbatim>\<open>frame.getBlock().setParent(null)\<close> throws when the
  frame has no block, and \<^verbatim>\<open>this.#blockFrames[index].disposableHolder\<close> throws when
  the frame is not in the array; the \<^verbatim>\<open>splice\<close> comes after both.
\<close>

definition removeFrameFromScrollArea :: "nat \<Rightarrow> 'e Terminal \<Rightarrow> 'e outcome" where
  "removeFrameFromScrollArea frame s =
     (let index = findIndex (blockFrames s) frame
      in if getBlock s frame = None then Inl (TypeError, s)
         else if index = -1 then Inl (TypeError, s)
         else Inr (s\<lparr>blockFrames := spliceOne index (blockFrames s)\<rparr>))"

section \<open>Command bracketing\<close>

definition setList :: "(EnvKey \<times> string option) list \<Rightarrow> (EnvKey \<rightharpoonup> string) \<Rightarrow> (EnvKey \<rightharpoonup> string)" where
  "setList kvs m = foldl (\<lambda>acc kv. acc(fst kv := snd kv)) m kvs"

text \<open>
  The first lines of \<^verbatim>\<open>#handleApplicationModeBracketStart\<close>, which compute
  \<^verbatim>\<open>cleanCommandLine\<close>. Under bracket style \<^verbatim>\<open>"bash"\<close> the buffer is trimmed and
  sliced at \<^verbatim>\<open>trimmed.indexOf(" ")\<close>; calling \<^verbatim>\<open>trim\<close> on a \<^verbatim>\<open>null\<close> buffer throws.
\<close>

definition cleanCommandLine :: "'e Terminal \<Rightarrow> js_error + string option" where
  "cleanCommandLine s =
     (if bracketStyle s = Some ''bash''
      then (case applicationModeData s of
              None \<Rightarrow> Inl TypeError
            | Some d \<Rightarrow>
                (let trimmed = trim d
                 in Inr (Some (trim (slice trimmed (indexOf trimmed (CHR '' '')))))))
      else Inr (applicationModeData s))"

text \<open>The branch of \<^verbatim>\<open>#handleApplicationModeBracketStart\<close> that opens a frame.\<close>

definition bracketStartOpenFrame ::
  "'e Collaborators \<Rightarrow> string option \<Rightarrow> 'e Terminal \<Rightarrow> 'e Terminal" where
  "bracketStartOpenFrame env clean s =
     (let s1 = closeLastTerminalFrame env s;
          (decoratedFrame, s2) = newDecoratedFrame env s1;
          s3 = s2\<lparr>frameHeap := (frameHeap s2)(decoratedFrame :=
                  (frameHeap s2 decoratedFrame)\<lparr>frameDefaultTitle := clean\<rparr>)\<rparr>;
          s4 = appendBlockFrame decoratedFrame s3;
          (spacerFrame, s5) = createFramedTerminalBlock s4
      in appendBlockFrame spacerFrame s5)"

text \<open>
  The other branch: output stays inline, and the viewer and the row where the command's
  output starts are remembered. \<^verbatim>\<open>getBlock\<close> on a \<^verbatim>\<open>null\<close> viewer throws, after
  the assignment to \<^verbatim>\<open>#lastCommandTerminalViewer\<close>.
\<close>

definition bracketStartInline :: "'e Collaborators \<Rightarrow> 'e Terminal \<Rightarrow> 'e outcome" where
  "bracketStartInline env s =
     (let s1 = moveCursorToFreshLine env s;
          s2 = s1\<lparr>emulator := flushRenderQueue env (moveRowsAboveCursorToScrollback env (emulator s1))\<rparr>;
          s3 = s2\<lparr>lastCommandTerminalViewer := findLastBareTerminalBlockFrame s2\<rparr>
      in case lastCommandTerminalViewer s3 of
           None \<Rightarrow> Inl (TypeError, s3)
         | Some viewer \<Rightarrow>
             (case getBlock s3 viewer of
                Some (TerminalBlockOf tb) \<Rightarrow> Inr (s3\<lparr>lastCommandTerminalRow := getScrollbackLength tb\<rparr>)
              | _ \<Rightarrow> Inl (TypeError, s3)))"

text \<open>
  \<^verbatim>\<open>#handleApplicationModeBracketStart\<close>. The frame decision is taken with the line
  count left at its default \<open>-1\<close>. \<^verbatim>\<open>cleanCommandLine.split(" ")[0]\<close> throws on a
  \<^verbatim>\<open>null\<close> command line, after \<^verbatim>\<open>#lastCommandLine\<close> was assigned.
\<close>

definition handleApplicationModeBracketStart :: "'e Collaborators \<Rightarrow> 'e Terminal \<Rightarrow> 'e outcome" where
  "handleApplicationModeBracketStart env s =
     (case cleanCommandLine s of
        Inl e \<Rightarrow> Inl (e, s)
      | Inr clean \<Rightarrow>
          (case commandNeedsFrame (regExpTest env) (configDatabase env) clean (-1) of
             Inl e \<Rightarrow> Inl (e, s)
           | Inr needsFrame \<Rightarrow>
               (case (if needsFrame then Inr (bracketStartOpenFrame env clean s)
                      else bracketStartInline env s) of
                  Inl es \<Rightarrow> Inl es
                | Inr s1 \<Rightarrow>
                    (let s2 = s1\<lparr>lastCommandLine := clean\<rparr>
                     in case clean of
                          None \<Rightarrow> Inl (TypeError, s2)
                        | Some cl \<Rightarrow>
                            (let command = (case splitSpace cl of [] \<Rightarrow> None | c # _ \<Rightarrow> Some c)
                             in Inr (s2\<lparr>environment := setList
                                      [(EXTRATERM_CURRENT_COMMAND_LINE, Some cl),
                                       (EXTRATERM_CURRENT_COMMAND, command),
                                       (EXTRATERM_EXIT_CODE, Some [])] (environment s2)\<rparr>))))))"

text \<open>
  \<^verbatim>\<open>Number.parseInt(returnCode, 10)\<close> on the buffer, which may be \<^verbatim>\<open>null\<close>:
  \<^verbatim>\<open>null\<close> is read as the text "null" and gives \<open>NaN\<close>.
\<close>

definition parseReturnCode :: "string option \<Rightarrow> jsnum" where
  "parseReturnCode returnCode = (case returnCode of None \<Rightarrow> NaN | Some t \<Rightarrow> parseInt10 t)"

text \<open>
  \<^verbatim>\<open>#frameWithExistingDecoratedFrame\<close>: the last bare terminal block is moved out of
  its spacer frame into the waiting decorated frame, with the command line and the
  parsed return code set on it. \<^verbatim>\<open>terminalBlockFrame.getBlock()\<close> throws when no bare
  terminal block frame was found.
\<close>

definition frameWithExistingDecoratedFrame ::
  "'e Collaborators \<Rightarrow> nat \<Rightarrow> string option \<Rightarrow> 'e Terminal \<Rightarrow> 'e outcome" where
  "frameWithExistingDecoratedFrame env decoratedFrame returnCode s =
     (case findLastBareTerminalBlockFrame s of
        None \<Rightarrow> Inl (TypeError, s)
      | Some terminalBlockFrame \<Rightarrow>
          (let s1 = closeLastTerminalFrame env s
           in case getBlock s1 terminalBlockFrame of
                Some (TerminalBlockOf terminalBlock) \<Rightarrow>
                  (let s2 = setBlock terminalBlockFrame None s1;
                       index = findIndex (blockFrames s2) terminalBlockFrame;
                       s3 = s2\<lparr>blockFrames := spliceOne index (blockFrames s2)\<rparr>;
                       returnCodeInt = parseReturnCode returnCode;
                       s4 = setBlock decoratedFrame
                              (Some (TerminalBlockOf (terminalBlock\<lparr>blockCommandLine := lastCommandLine s3,
                                                                   blockReturnCode := Some returnCodeInt\<rparr>))) s3;
                       (spacerFrame, s5) = createFramedTerminalBlock s4
                   in Inr (appendBlockFrame spacerFrame s5))
              | _ \<Rightarrow> Inl (TypeError, s1)))"

text \<open>A method called on the terminal block that a frame holds.\<close>

definition updateTerminalBlock ::
  "nat \<Rightarrow> (TerminalBlock \<Rightarrow> TerminalBlock) \<Rightarrow> 'e Terminal \<Rightarrow> 'e Terminal" where
  "updateTerminalBlock frame f s =
     (case getBlock s frame of
        Some (TerminalBlockOf tb) \<Rightarrow> setBlock frame (Some (TerminalBlockOf (f tb))) s
      | _ \<Rightarrow> s)"

text \<open>
  The lines of \<^verbatim>\<open>#frameWithoutDecoratedFrame\<close> after its early return, which make
  the frame: a new decorated frame gets a new terminal block without emulator; the rows
  from \<^verbatim>\<open>#lastCommandTerminalRow\<close> on are taken out of \<open>activeTerminalBlock\<close>, the
  block of the viewer, and given to the new block with the parsed return code and the
  command line; the frame is appended, and after it a fresh spacer frame on the
  emulator, which becomes the viewer.
\<close>

definition materializeFrame ::
  "'e Collaborators \<Rightarrow> nat \<Rightarrow> string option \<Rightarrow> 'e Terminal \<Rightarrow> 'e outcome" where
  "materializeFrame env viewer returnCode s1 =
     (let s2 = closeLastTerminalFrame env s1;
          (decoratedFrame, s3) = newDecoratedFrame env s2;
          s4 = setBlock decoratedFrame (Some (TerminalBlockOf (newTerminalBlock False))) s3
      in case getBlock s4 viewer of
           Some (TerminalBlockOf active) \<Rightarrow>
             (let (scrollbackLines, rest) = takeScrollbackFrom (lastCommandTerminalRow s4) active;
                  s5 = setBlock viewer (Some (TerminalBlockOf rest)) s4;
                  returnCodeInt = parseReturnCode returnCode;
                  s6 = updateTerminalBlock decoratedFrame
                         (\<lambda>tb. tb\<lparr>scrollback := scrollbackLines,
                                  blockReturnCode := Some returnCodeInt,
                                  blockCommandLine := lastCommandLine s5\<rparr>) s5;
                  s7 = appendBlockFrame decoratedFrame s6;
                  (latestTerminalBlock, s8) = createFramedTerminalBlock s7;
                  s9 = appendBlockFrame latestTerminalBlock s8
              in Inr (s9\<lparr>lastCommandTerminalViewer := Some latestTerminalBlock\<rparr>))
         | _ \<Rightarrow> Inl (TypeError, s4))"

text \<open>
  \<^verbatim>\<open>#frameWithoutDecoratedFrame\<close>. \<open>activeTerminalBlock\<close> is the block of
  \<^verbatim>\<open>#lastCommandTerminalViewer\<close>; reading its scrollback length throws when the viewer
  is \<^verbatim>\<open>null\<close> or holds no terminal block. The return code is compared as a string
  with \<^verbatim>\<open>"0"\<close> before \<^verbatim>\<open>#commandNeedsFrame\<close> is called.
\<close>

definition frameWithoutDecoratedFrame ::
  "'e Collaborators \<Rightarrow> string option \<Rightarrow> 'e Terminal \<Rightarrow> 'e outcome" where
  "frameWithoutDecoratedFrame env returnCode s =
     (let s1 = moveCursorToFreshLine env s
      in case lastCommandTerminalViewer s1 of
           None \<Rightarrow> Inl (TypeError, s1)
         | Some viewer \<Rightarrow>
             (case getBlock s1 viewer of
                Some (TerminalBlockOf activeTerminalBlock) \<Rightarrow>
                  (let scrollbackOutputLength =
                         getScrollbackLength activeTerminalBlock - lastCommandTerminalRow s1;
                       effectiveScreenLength = getCursorRow env (emulator s1)
                   in case (if returnCode \<noteq> Some ''0'' then Inr True
                            else commandNeedsFrame (regExpTest env) (configDatabase env)
                                   (lastCommandLine s1)
                                   (scrollbackOutputLength + effectiveScreenLength)) of
                        Inl e \<Rightarrow> Inl (e, s1)
                      | Inr commandShouldBeFramed \<Rightarrow>
                          if \<not> commandShouldBeFramed then Inr s1
                          else materializeFrame env viewer returnCode s1)
              | _ \<Rightarrow> Inl (TypeError, s1)))"

text \<open>\<^verbatim>\<open>#closeLastEmbeddedViewer\<close>\<close>

definition closeLastEmbeddedViewer ::
  "'e Collaborators \<Rightarrow> string option \<Rightarrow> 'e Terminal \<Rightarrow> 'e outcome" where
  "closeLastEmbeddedViewer env returnCode s =
     (case findEmptyDecoratedFrame s of
        Inl e \<Rightarrow> Inl (e, s)
      | Inr (Some startFrame) \<Rightarrow> frameWithExistingDecoratedFrame env startFrame returnCode s
      | Inr None \<Rightarrow> frameWithoutDecoratedFrame env returnCode s)"

text \<open>\<^verbatim>\<open>#handleApplicationModeBracketEnd\<close>\<close>

definition handleApplicationModeBracketEnd :: "'e Collaborators \<Rightarrow> 'e Terminal \<Rightarrow> 'e outcome" where
  "handleApplicationModeBracketEnd env s =
     (let returnCode = applicationModeData s
      in case closeLastEmbeddedViewer env returnCode s of
           Inl es \<Rightarrow> Inl es
         | Inr s1 \<Rightarrow>
             (let lastCommandLine = environment s1 EXTRATERM_CURRENT_COMMAND_LINE;
                  lastCommand = environment s1 EXTRATERM_CURRENT_COMMAND;
                  newVars = [(EXTRATERM_EXIT_CODE, Some []),
                             (EXTRATERM_CURRENT_COMMAND_LINE, Some []),
                             (EXTRATERM_CURRENT_COMMAND, Some [])]
                            @ (if lastCommand \<noteq> None
                               then [(EXTRATERM_LAST_COMMAND_LINE, lastCommandLine),
                                     (EXTRATERM_LAST_COMMAND, lastCommand)]
                               else [])
              in Inr (s1\<lparr>environment := setList newVars (environment s1)\<rparr>)))"

section \<open>Scrollback enforcement\<close>

text \<open>
  \<^verbatim>\<open>#computeTerminalSize\<close> works from fonts and widget geometry, so its result is a
  parameter: \<open>None\<close> for \<^verbatim>\<open>null\<close>, else the size, of which the loop reads \<open>rows\<close>.
\<close>

record TerminalSize =
  rows :: int

text \<open>
  The first loop of \<^verbatim>\<open>#enforceScrollbackLinesSize\<close>, from the newest frame back:
  \<^verbatim>\<open>while (blockIndex >= 0 && currentHeight < maxScrollbackLines)\<close>. The result is
  the pair of \<open>blockIndex\<close> and \<open>currentHeight\<close> when it stops.
\<close>

function skipVisibleLoop :: "'e Terminal \<Rightarrow> int \<Rightarrow> int \<Rightarrow> int \<Rightarrow> int \<times> int" where
  "skipVisibleLoop s maxScrollbackLines blockIndex currentHeight =
     (if blockIndex \<ge> 0 \<and> currentHeight < maxScrollbackLines
      then (case getBlock s (blockFrames s ! nat blockIndex) of
              Some (TerminalBlockOf tb) \<Rightarrow>
                skipVisibleLoop s maxScrollbackLines (blockIndex - 1)
                  (currentHeight + getScrollbackLength tb)
            | _ \<Rightarrow> skipVisibleLoop s maxScrollbackLines (blockIndex - 1) currentHeight)
      else (blockIndex, currentHeight))"
  by pat_completeness auto
termination
  by (relation "measure (\<lambda>(s, m, i, h). nat (i + 1))") auto

declare skipVisibleLoop.simps [simp del]

text \<open>
  The last loop: \<^verbatim>\<open>while (blockIndex >= 0)\<close> removes the frame at index 0 each time.
  An exception from \<^verbatim>\<open>#removeFrameFromScrollArea\<close> ends it.
\<close>

function removeOlderLoop :: "'e Terminal \<Rightarrow> int \<Rightarrow> 'e outcome" where
  "removeOlderLoop s blockIndex =
     (if blockIndex \<ge> 0
      then (case blockFrames s of
              [] \<Rightarrow> Inl (TypeError, s)
            | targetFrame # _ \<Rightarrow>
                (case removeFrameFromScrollArea targetFrame s of
                   Inl es \<Rightarrow> Inl es
                 | Inr s1 \<Rightarrow> removeOlderLoop s1 (blockIndex - 1)))
      else Inr s)"
  by pat_completeness auto
termination
  by (relation "measure (\<lambda>(s, i). nat (i + 1))") auto

declare removeOlderLoop.simps [simp del]

text \<open>
  \<^verbatim>\<open>#enforceScrollbackLinesSize(maxScrollbackLines)\<close>. After the first loop the index
  is stepped back up to the frame where the loop stopped; reading
  \<^verbatim>\<open>this.#blockFrames[blockIndex].frame\<close> throws when that is past the end of the array,
  which is where the index is when the loop did not run at all.
\<close>

definition enforceScrollbackLinesSize ::
  "TerminalSize option \<Rightarrow> int \<Rightarrow> 'e Terminal \<Rightarrow> 'e outcome" where
  "enforceScrollbackLinesSize terminalSize maxScrollbackLines s =
     (case terminalSize of
        None \<Rightarrow> Inr s
      | Some sz \<Rightarrow>
          (let (blockIndex0, currentHeight) =
                 skipVisibleLoop s maxScrollbackLines (int (length (blockFrames s)) - 1) (- rows sz)
           in if currentHeight < maxScrollbackLines then Inr s
              else
                (let blockIndex = blockIndex0 + 1
                 in if blockIndex < 0 \<or> blockIndex \<ge> int (length (blockFrames s))
                    then Inl (TypeError, s)
                    else
                      (let frame = blockFrames s ! nat blockIndex;
                           s1 = (case getBlock s frame of
                                   Some (TerminalBlockOf tb) \<Rightarrow>
                                     (let lineCount = currentHeight - maxScrollbackLines;
                                          s2 = setBlock frame
                                                 (Some (TerminalBlockOf (deleteTopLines lineCount tb))) s;
                                          isLastBlock = (blockIndex = int (length (blockFrames s2)) - 1)
                                      in if isLastBlock \<and> lastCommandTerminalRow s2 \<noteq> -1
                                         then s2\<lparr>lastCommandTerminalRow :=
                                                   max 0 (lastCommandTerminalRow s2 - lineCount)\<rparr>
                                         else s2)
                                 | _ \<Rightarrow> s)
                       in removeOlderLoop s1 (blockIndex - 1)))))"

text \<open>
  The listener that \<^verbatim>\<open>#createTerminalBlock\<close> puts on every terminal block: when rows
  were appended to a block's scrollback, the cap from the configuration is enforced.
\<close>

definition onDidAppendScrollbackLines ::
  "'e Collaborators \<Rightarrow> TerminalSize option \<Rightarrow> 'e Terminal \<Rightarrow> 'e outcome" where
  "onDidAppendScrollbackLines env terminalSize s =
     (case configDatabase env of
        None \<Rightarrow> Inl (TypeError, s)
      | Some db \<Rightarrow> enforceScrollbackLinesSize terminalSize (scrollbackMaxLines (getGeneralConfig db)) s)"

section \<open>Frame replay and the input stream filters\<close>

text \<open>\<^verbatim>\<open>sendToPty\<close>: nothing is written when there is no pty.\<close>

definition sendToPty :: "string \<Rightarrow> 'e Terminal \<Rightarrow> 'e Terminal" where
  "sendToPty text s =
     (case pty s of
        None \<Rightarrow> s
      | Some written \<Rightarrow> s\<lparr>pty := Some (written @ [text])\<rparr>)"

text \<open>\<^verbatim>\<open>#initUploadProgressBar\<close>\<close>

definition initUploadProgressBar :: "'e Terminal \<Rightarrow> 'e Terminal" where
  "initUploadProgressBar s =
     (if uploadProgressBar s = None
      then s\<lparr>uploadProgressBar :=
               Some \<lparr>progressFilename = None, progressTotal = None, showDelayedCalled = False\<rparr>\<rparr>
      else s)"

definition updateProgressBar ::
  "(UploadProgressBar \<Rightarrow> UploadProgressBar) \<Rightarrow> 'e Terminal \<Rightarrow> 'e Terminal" where
  "updateProgressBar f s = s\<lparr>uploadProgressBar := map_option f (uploadProgressBar s)\<rparr>"

text \<open>
  \<^verbatim>\<open>#handleRequestFrame(frameId)\<close>, called with the accumulation buffer, which may
  be \<^verbatim>\<open>null\<close>. The frame finder answers \<open>None\<close> for \<^verbatim>\<open>null\<close>. Otherwise an uploader is made for the file and
  the pty, the progress bar is set up, the filter closure is registered at the end of
  \<^verbatim>\<open>#inputStreamFilters\<close>, and \<^verbatim>\<open>uploader.upload()\<close> is called.
\<close>

definition handleRequestFrame ::
  "'e Collaborators \<Rightarrow> string option \<Rightarrow> 'e Terminal \<Rightarrow> 'e Terminal" where
  "handleRequestFrame env frameId s =
     (case frameFinder env of
        None \<Rightarrow> s
      | Some finder \<Rightarrow>
          (case finder frameId of
             None \<Rightarrow> sendToPty (''#error'' @ [CHR 0x0A]) s
           | Some bulkFile \<Rightarrow>
               (let uploader = nextUploaderRef s;
                    s1 = s\<lparr>uploaderHeap := (uploaderHeap s)(uploader :=
                             \<lparr>uploaderFile = bulkFile, uploaderHasPty = (pty s \<noteq> None),
                              uploadCalled = False, abortCalled = False\<rparr>),
                           nextUploaderRef := Suc uploader\<rparr>;
                    s2 = initUploadProgressBar s1;
                    s3 = (case map_of (getMetadata bulkFile) ''filename'' of
                            Some filename \<Rightarrow>
                              updateProgressBar (\<lambda>bar. bar\<lparr>progressFilename := Some filename\<rparr>) s2
                          | None \<Rightarrow> s2);
                    s4 = updateProgressBar (\<lambda>bar. bar\<lparr>progressTotal := Some (getTotalSize bulkFile)\<rparr>) s3;
                    s5 = s4\<lparr>inputStreamFilters := inputStreamFilters s4 @ [uploader]\<rparr>;
                    s6 = updateProgressBar (\<lambda>bar. bar\<lparr>showDelayedCalled := True\<rparr>) s5
                in s6\<lparr>uploaderHeap := (uploaderHeap s6)(uploader :=
                         (uploaderHeap s6 uploader)\<lparr>uploadCalled := True\<rparr>)\<rparr>)))"

text \<open>
  The filter closure of \<^verbatim>\<open>#handleRequestFrame\<close> for the uploader it captures: its
  result, and the state after its calls to \<^verbatim>\<open>uploader.abort()\<close> and
  \<^verbatim>\<open>inputFilterRegistration.dispose()\<close>, which takes the closure out of
  \<^verbatim>\<open>#inputStreamFilters\<close>.
\<close>

definition uploadInputFilter :: "nat \<Rightarrow> string \<Rightarrow> 'e Terminal \<Rightarrow> string \<times> 'e Terminal" where
  "uploadInputFilter uploader input s =
     (let ctrlCIndex = indexOf input (CHR 0x03)
      in if ctrlCIndex \<noteq> -1
         then (substring input (ctrlCIndex + 1),
               s\<lparr>uploaderHeap := (uploaderHeap s)(uploader :=
                    (uploaderHeap s uploader)\<lparr>abortCalled := True\<rparr>),
                 inputStreamFilters := filter (\<lambda>f. f \<noteq> uploader) (inputStreamFilters s)\<rparr>)
         else ([], s))"

text \<open>
  The \<^verbatim>\<open>for ... of\<close> loop of \<^verbatim>\<open>#handleTermData\<close>. It walks the array that
  \<^verbatim>\<open>#inputStreamFilters\<close> held when the loop began: \<^verbatim>\<open>dispose\<close> assigns a new array
  to the field and leaves the old one as it was.
\<close>

fun applyInputStreamFilters :: "nat list \<Rightarrow> string \<Rightarrow> 'e Terminal \<Rightarrow> string \<times> 'e Terminal" where
  "applyInputStreamFilters [] filteredData s = (filteredData, s)"
| "applyInputStreamFilters (f # fs) filteredData s =
     (let (filteredData1, s1) = uploadInputFilter f filteredData s
      in applyInputStreamFilters fs filteredData1 s1)"

text \<open>\<^verbatim>\<open>#handleTermData\<close>, for an event carrying \<open>data\<close>.\<close>

definition handleTermData :: "string \<Rightarrow> 'e Terminal \<Rightarrow> 'e Terminal" where
  "handleTermData data s =
     (let (filteredData, s1) = applyInputStreamFilters (inputStreamFilters s) data s
      in if filteredData \<noteq> [] then sendToPty filteredData s1 else s1)"

section \<open>The application mode handlers\<close>

text \<open>
  \<^verbatim>\<open>#handleApplicationModeStart(params)\<close>. The buffer is emptied first. The mode codes
  are the decimal texts of the \<^verbatim>\<open>ApplicationMode\<close> enum values 2, 3, 4 and 5;
  \<^verbatim>\<open>params[2]\<close> is \<^verbatim>\<open>undefined\<close> (\<open>None\<close>) when there are two parameters only.
\<close>

definition handleApplicationModeStart ::
  "'e Collaborators \<Rightarrow> string list \<Rightarrow> 'e Terminal \<Rightarrow> ApplicationModeResponse \<times> 'e Terminal" where
  "handleApplicationModeStart env params s =
     (let s0 = s\<lparr>applicationModeData := Some []\<rparr>
      in case params of
           [] \<Rightarrow> ((ABORT, None), s0)
         | p0 # ps \<Rightarrow>
             if p0 \<noteq> cookie s0 then ((ABORT, None), s0)
             else (case ps of
                     [] \<Rightarrow> ((ABORT, None), s0)
                   | p1 # rest \<Rightarrow>
                       if p1 = ''2''
                       then ((CONTINUE, None),
                             s0\<lparr>applicationMode := APPLICATION_MODE_OUTPUT_BRACKET_START,
                                bracketStyle := (case rest of [] \<Rightarrow> None | p2 # _ \<Rightarrow> Some p2)\<rparr>)
                       else if p1 = ''3''
                       then ((CONTINUE, None),
                             s0\<lparr>applicationMode := APPLICATION_MODE_OUTPUT_BRACKET_END\<rparr>)
                       else if p1 = ''4''
                       then ((CONTINUE, None),
                             s0\<lparr>applicationMode := APPLICATION_MODE_REQUEST_FRAME\<rparr>)
                       else if p1 = ''5''
                       then (let s1 = s0\<lparr>applicationMode := APPLICATION_MODE_SHOW_FILE\<rparr>;
                                 (response, e) = downloadHandleStart env rest (emulator s1)
                             in (response, s1\<lparr>emulator := e\<rparr>))
                       else ((CONTINUE, None), s0)))"

text \<open>
  \<^verbatim>\<open>#handleApplicationModeData(data)\<close>. String concatenation reads a \<^verbatim>\<open>null\<close>
  buffer as the text "null".
\<close>

definition handleApplicationModeData ::
  "'e Collaborators \<Rightarrow> string \<Rightarrow> 'e Terminal \<Rightarrow> ApplicationModeResponse \<times> 'e Terminal" where
  "handleApplicationModeData env data s =
     (if applicationMode s = APPLICATION_MODE_OUTPUT_BRACKET_START
         \<or> applicationMode s = APPLICATION_MODE_OUTPUT_BRACKET_END
         \<or> applicationMode s = APPLICATION_MODE_REQUEST_FRAME
      then ((CONTINUE, None),
            s\<lparr>applicationModeData :=
                Some ((case applicationModeData s of None \<Rightarrow> ''null'' | Some d \<Rightarrow> d) @ data)\<rparr>)
      else if applicationMode s = APPLICATION_MODE_SHOW_FILE
      then (let (response, e) = downloadHandleData env data (emulator s)
            in (response, s\<lparr>emulator := e\<rparr>))
      else ((CONTINUE, None), s))"

text \<open>
  \<^verbatim>\<open>#handleApplicationModeEnd\<close>. The three buffered modes run their handler and
  \<^verbatim>\<open>break\<close> to the lines that reset the mode to \<^verbatim>\<open>APPLICATION_MODE_NONE\<close> and the
  buffer to \<^verbatim>\<open>null\<close>; the case for \<^verbatim>\<open>APPLICATION_MODE_SHOW_FILE\<close> is
  \<^verbatim>\<open>return this.#downloadHandler.handleStop()\<close>.
\<close>

definition resetApplicationMode :: "'e Terminal \<Rightarrow> ApplicationModeResponse \<times> 'e Terminal" where
  "resetApplicationMode s =
     ((CONTINUE, None), s\<lparr>applicationMode := APPLICATION_MODE_NONE, applicationModeData := None\<rparr>)"

definition handleApplicationModeEnd ::
  "'e Collaborators \<Rightarrow> 'e Terminal
     \<Rightarrow> (js_error \<times> 'e Terminal) + (ApplicationModeResponse \<times> 'e Terminal)" where
  "handleApplicationModeEnd env s =
     (case applicationMode s of
        APPLICATION_MODE_OUTPUT_BRACKET_START \<Rightarrow>
          (case handleApplicationModeBracketStart env s of
             Inl es \<Rightarrow> Inl es
           | Inr s1 \<Rightarrow> Inr (resetApplicationMode s1))
      | APPLICATION_MODE_OUTPUT_BRACKET_END \<Rightarrow>
          (case handleApplicationModeBracketEnd env s of
             Inl es \<Rightarrow> Inl es
           | Inr s1 \<Rightarrow> Inr (resetApplicationMode s1))
      | APPLICATION_MODE_REQUEST_FRAME \<Rightarrow>
          Inr (resetApplicationMode (handleRequestFrame env (applicationModeData s) s))
      | APPLICATION_MODE_SHOW_FILE \<Rightarrow>
          (let (response, e) = downloadHandleStop env (emulator s)
           in Inr (response, s\<lparr>emulator := e\<rparr>))
      | APPLICATION_MODE_NONE \<Rightarrow> Inr (resetApplicationMode s))"

section \<open>Construction\<close>

text \<open>
  The state the constructor and \<^verbatim>\<open>#createUi\<close> leave: the cookie drawn once from
  \<^verbatim>\<open>crypto.randomBytes\<close> (a parameter here), no application mode, and one spacer frame
  with a terminal block on the emulator, which is also the last command's viewer. A
  reference that was never allocated reads as a frame without a block.
\<close>

definition unallocatedFrame :: BlockFrame where
  "unallocatedFrame =
     \<lparr>frameClass = SpacerFrame, frameTag = None, frameDefaultTitle = None, frameBlock = None\<rparr>"

definition unallocatedUploader :: BulkFileUploader where
  "unallocatedUploader =
     \<lparr>uploaderFile = \<lparr>getMetadata = [], getTotalSize = 0\<rparr>, uploaderHasPty = False,
      uploadCalled = False, abortCalled = False\<rparr>"

definition newTerminal :: "string \<Rightarrow> 'e \<Rightarrow> 'e Terminal" where
  "newTerminal randomCookie e =
     \<lparr>cookie = randomCookie,
      applicationMode = APPLICATION_MODE_NONE,
      applicationModeData = None,
      bracketStyle = None,
      lastCommandLine = None,
      lastCommandTerminalRow = -1,
      lastCommandTerminalViewer = Some 0,
      blockFrames = [0],
      frameHeap = (\<lambda>r. unallocatedFrame)(0 :=
        \<lparr>frameClass = SpacerFrame, frameTag = None, frameDefaultTitle = None,
         frameBlock = Some (TerminalBlockOf (newTerminalBlock True))\<rparr>),
      nextFrameRef = 1,
      tagsIssued = 0,
      emulator = e,
      environment = [EXTRATERM_CURRENT_COMMAND_LINE \<mapsto> [], EXTRATERM_CURRENT_COMMAND \<mapsto> [],
                     EXTRATERM_EXIT_CODE \<mapsto> [], EXTRATERM_LAST_COMMAND_LINE \<mapsto> [],
                     EXTRATERM_LAST_COMMAND \<mapsto> []],
      pty = None,
      inputStreamFilters = [],
      uploaderHeap = (\<lambda>r. unallocatedUploader),
      nextUploaderRef = 0,
      uploadProgressBar = None\<rparr>"

text \<open>
  Collaborators for the worked examples: an emulator without state whose cursor sits at
  the top left, a regular expression engine that accepts the pattern \<^verbatim>\<open>.*\<close> only (it
  matches every text) and rejects every other pattern as not compiling, and a download
  handler that always continues.
\<close>

definition sampleRegExp :: RegExpTest where
  "sampleRegExp = (\<lambda>pattern t. if pattern = ''.*'' then Some True else None)"

definition plainCollaborators ::
  "ConfigDatabase option \<Rightarrow> (string option \<Rightarrow> BulkFile option) option \<Rightarrow> unit Collaborators" where
  "plainCollaborators db finder =
     \<lparr>regExpTest = sampleRegExp,
      configDatabase = db,
      frameFinder = finder,
      nextTag = int,
      cursorX = (\<lambda>e. 0),
      cursorY = (\<lambda>e. 0),
      getLineText = (\<lambda>e y. []),
      getCursorRow = (\<lambda>e. 0),
      newLine = (\<lambda>e. e),
      carriageReturn = (\<lambda>e. e),
      moveRowsAboveCursorToScrollback = (\<lambda>e. e),
      flushRenderQueue = (\<lambda>e. e),
      downloadHandleStart = (\<lambda>ps e. ((CONTINUE, None), e)),
      downloadHandleData = (\<lambda>d e. ((CONTINUE, None), e)),
      downloadHandleStop = (\<lambda>e. ((CONTINUE, None), e))\<rparr>"

definition generalRule :: "FrameRule \<Rightarrow> int \<Rightarrow> ConfigDatabase" where
  "generalRule rule ruleLines =
     \<lparr>getCommandLineActionConfig = None,
      getGeneralConfig = \<lparr>gcFrameRule = rule, gcFrameRuleLines = ruleLines,
                          scrollbackMaxLines = 50, scrollbackMaxFrames = 10\<rparr>\<rparr>"

text \<open>
  A terminal with a pty in which a frame replay upload has been started: the state
  after \<^verbatim>\<open>#handleRequestFrame\<close> found a file for the identifier \<^verbatim>\<open>"7"\<close>.
\<close>

definition uploadingTerminal :: "unit Terminal" where
  "uploadingTerminal =
     handleRequestFrame
       (plainCollaborators None (Some (\<lambda>frameId. Some \<lparr>getMetadata = [], getTotalSize = 3\<rparr>)))
       (Some ''7'') ((newTerminal ''abc123'' ())\<lparr>pty := Some []\<rparr>)"

definition sampleRules :: ConfigDatabase where
  "sampleRules =
     \<lparr>getCommandLineActionConfig = Some
        [\<lparr>match = ''git'', matchType = name, frameRule = never_frame, frameRuleLines = 0\<rparr>,
         \<lparr>match = ''ls'', matchType = name, frameRule = frame_if_lines, frameRuleLines = 3\<rparr>,
         \<lparr>match = ''.*'', matchType = regexp, frameRule = always_frame, frameRuleLines = 0\<rparr>],
      getGeneralConfig = \<lparr>gcFrameRule = never_frame, gcFrameRuleLines = 5,
                          scrollbackMaxLines = 50, scrollbackMaxFrames = 10\<rparr>\<rparr>"

text \<open>
  A terminal at the end of a frame replay request for the identifier \<open>frameId\<close>, and
  a frame finder that knows the frame \<^verbatim>\<open>"7"\<close> only.
\<close>

definition requestingTerminal :: "string \<Rightarrow> unit Terminal" where
  "requestingTerminal frameId =
     (newTerminal ''abc123'' ())\<lparr>pty := Some [],
        applicationMode := APPLICATION_MODE_REQUEST_FRAME,
        applicationModeData := Some frameId\<rparr>"

definition oneFrameFinder :: "string option \<Rightarrow> BulkFile option" where
  "oneFrameFinder frameId =
     (if frameId = Some ''7''
      then Some \<lparr>getMetadata = [(''filename'', ''out.txt'')], getTotalSize = 3\<rparr>
      else None)"

text \<open>A terminal at the end of a bracket start sequence with the given style and payload.\<close>

definition bracketStartTerminal :: "string option \<Rightarrow> string \<Rightarrow> unit Terminal" where
  "bracketStartTerminal style payload =
     (newTerminal ''abc123'' ())\<lparr>applicationMode := APPLICATION_MODE_OUTPUT_BRACKET_START,
        bracketStyle := style, applicationModeData := Some payload\<rparr>"

text \<open>
  The line count that \<^verbatim>\<open>#frameWithoutDecoratedFrame\<close> hands to
  \<^verbatim>\<open>#commandNeedsFrame\<close>: the rows the viewer's block holds from
  \<^verbatim>\<open>#lastCommandTerminalRow\<close> on, plus the cursor row after the cursor was moved to
  a fresh line.
\<close>

definition outputLineCount :: "'e Collaborators \<Rightarrow> 'e Terminal \<Rightarrow> int" where
  "outputLineCount env s =
     (case lastCommandTerminalViewer s of
        Some viewer \<Rightarrow>
          (case getBlock s viewer of
             Some (TerminalBlockOf tb) \<Rightarrow>
               getScrollbackLength tb - lastCommandTerminalRow s
                 + getCursorRow env (emulator (moveCursorToFreshLine env s))
           | _ \<Rightarrow> 0)
      | None \<Rightarrow> 0)"

text \<open>
  Two conditions on a state. Every frame in \<^verbatim>\<open>#blockFrames\<close> is an object that
  exists, so a frame made later is a different one. And the viewer of the last command
  holds a terminal block, as it does from construction on until that block is moved
  into a decorated frame.
\<close>

definition framesAllocated :: "'e Terminal \<Rightarrow> bool" where
  "framesAllocated s = list_all (\<lambda>frame. frame < nextFrameRef s) (blockFrames s)"

definition viewerHoldsTerminalBlock :: "'e Terminal \<Rightarrow> bool" where
  "viewerHoldsTerminalBlock s =
     (case lastCommandTerminalViewer s of
        None \<Rightarrow> False
      | Some viewer \<Rightarrow> isTerminalBlock (getBlock s viewer))"

text \<open>
  A terminal after the command \<^verbatim>\<open>ls -la\<close> ran inline and left the given rows in the
  first block's scrollback, and a terminal in which a frame was opened for it at bracket
  start.
\<close>

definition inlineCommandTerminal :: "Line list \<Rightarrow> unit Terminal" where
  "inlineCommandTerminal outputRows =
     updateTerminalBlock 0 (\<lambda>tb. tb\<lparr>scrollback := outputRows\<rparr>)
       ((newTerminal ''abc123'' ())\<lparr>lastCommandLine := Some ''ls -la'',
                                     lastCommandTerminalRow := 0\<rparr>)"

definition framedCommandTerminal :: "unit Terminal" where
  "framedCommandTerminal =
     projr (handleApplicationModeBracketStart
              (plainCollaborators (Some (generalRule always_frame 0)) None)
              (bracketStartTerminal None ''ls -la''))"

text \<open>
  A terminal in which a second frame was opened while the first one was still waiting
  for its bracket end: the first command's block holds five rows, the second one's
  four.
\<close>

definition nestedFramedTerminal :: "unit Terminal" where
  "nestedFramedTerminal =
     updateTerminalBlock 4 (\<lambda>tb. tb\<lparr>scrollback := [''r6'', ''r7'', ''r8'', ''r9'']\<rparr>)
       (projr (handleApplicationModeBracketStart
                 (plainCollaborators (Some (generalRule always_frame 0)) None)
                 (updateTerminalBlock 2
                    (\<lambda>tb. tb\<lparr>scrollback := [''r1'', ''r2'', ''r3'', ''r4'', ''r5'']\<rparr>)
                    framedCommandTerminal)))"

text \<open>
  The rows a frame retains, which is the scrollback length of its terminal block when it
  holds one, and the rows retained by all the frames of \<^verbatim>\<open>#blockFrames\<close>.
\<close>

definition frameRows :: "'e Terminal \<Rightarrow> nat \<Rightarrow> int" where
  "frameRows s frame =
     (case getBlock s frame of
        Some (TerminalBlockOf tb) \<Rightarrow> getScrollbackLength tb
      | _ \<Rightarrow> 0)"

definition retainedRows :: "'e Terminal \<Rightarrow> int" where
  "retainedRows s = sum_list (map (frameRows s) (blockFrames s))"

text \<open>A configuration whose only per-command rule and whose global rule say never-frame.\<close>

definition neverFrameRules :: ConfigDatabase where
  "neverFrameRules =
     \<lparr>getCommandLineActionConfig = Some
        [\<lparr>match = ''ls'', matchType = name, frameRule = never_frame, frameRuleLines = 0\<rparr>],
      getGeneralConfig = \<lparr>gcFrameRule = never_frame, gcFrameRuleLines = 0,
                          scrollbackMaxLines = 50, scrollbackMaxFrames = 10\<rparr>\<rparr>"

text \<open>
  A terminal with a pty in which a second frame replay upload was started while the
  first one was still running: \<^verbatim>\<open>#handleRequestFrame\<close> ran again, for the identifier
  \<^verbatim>\<open>"8"\<close>, and registered a second filter after the first.
\<close>

definition twoUploadsTerminal :: "unit Terminal" where
  "twoUploadsTerminal =
     handleRequestFrame
       (plainCollaborators None (Some (\<lambda>frameId. Some \<lparr>getMetadata = [], getTotalSize = 3\<rparr>)))
       (Some ''8'') uploadingTerminal"

text \<open>
  The three handlers in the order in which they run for one application mode sequence
  that is not aborted: start with the parameters, data with the payload, end. And the
  state such a sequence leaves when the end handler returns.
\<close>

definition applicationModeSequence ::
  "'e Collaborators \<Rightarrow> string list \<Rightarrow> string \<Rightarrow> 'e Terminal
     \<Rightarrow> (js_error \<times> 'e Terminal) + (ApplicationModeResponse \<times> 'e Terminal)" where
  "applicationModeSequence env params payload s =
     handleApplicationModeEnd env
       (snd (handleApplicationModeData env payload
          (snd (handleApplicationModeStart env params s))))"

definition afterSequence ::
  "'e Collaborators \<Rightarrow> string list \<Rightarrow> string \<Rightarrow> 'e Terminal \<Rightarrow> 'e Terminal" where
  "afterSequence env params payload s = snd (projr (applicationModeSequence env params payload s))"

text \<open>
  A terminal in which a shell was started from the shell, under \<open>sampleRules\<close>. The
  bracket start of \<^verbatim>\<open>bash\<close> opened a decorated frame and a spacer frame. The bracket
  start of \<^verbatim>\<open>git status\<close>, typed in the inner shell, left the output inline and made
  that spacer frame the viewer of the last command. The bracket end of
  \<^verbatim>\<open>git status\<close> found the decorated frame still empty and moved the spacer's block
  into it. The bracket end of \<^verbatim>\<open>bash\<close> is still to come.
\<close>

definition nestedShellTerminal :: "unit Terminal" where
  "nestedShellTerminal =
     afterSequence (plainCollaborators (Some sampleRules) None) [''abc123'', ''3''] ''0''
       (afterSequence (plainCollaborators (Some sampleRules) None) [''abc123'', ''2''] ''git status''
          (afterSequence (plainCollaborators (Some sampleRules) None) [''abc123'', ''2''] ''bash''
             (newTerminal ''abc123'' ())))"

section \<open>The specification's wording\<close>

text \<open>
  The frame decision as the specification words it: the first per-command rule whose
  matcher matches decides, else the global rule; a rule gives true for always-frame,
  false for never-frame, and for frame-if-lines whether the line count is known (not
  \<open>-1\<close>) and strictly above the rule's threshold.
\<close>

fun specRuleResult :: "FrameRule \<Rightarrow> int \<Rightarrow> int \<Rightarrow> bool" where
  "specRuleResult always_frame threshold linesOfOutput = True"
| "specRuleResult never_frame threshold linesOfOutput = False"
| "specRuleResult frame_if_lines threshold linesOfOutput =
     (linesOfOutput \<noteq> -1 \<and> linesOfOutput > threshold)"

definition perCommandRules :: "ConfigDatabase \<Rightarrow> CommandLineAction list" where
  "perCommandRules db = (case getCommandLineActionConfig db of None \<Rightarrow> [] | Some clas \<Rightarrow> clas)"

definition specFrameDecision :: "RegExpTest \<Rightarrow> ConfigDatabase \<Rightarrow> string \<Rightarrow> int \<Rightarrow> bool" where
  "specFrameDecision rx db commandLine linesOfOutput =
     (case find (\<lambda>cla. commandLineActionMatches rx commandLine cla = Inr True) (perCommandRules db) of
        Some cla \<Rightarrow> specRuleResult (frameRule cla) (frameRuleLines cla) linesOfOutput
      | None \<Rightarrow> specRuleResult (gcFrameRule (getGeneralConfig db))
                  (gcFrameRuleLines (getGeneralConfig db)) linesOfOutput)"

text \<open>
  The history number stripped as the specification words it: the trimmed payload sliced
  at its first white space character, and the remainder trimmed.
\<close>

definition specStripHistoryNumber :: "string \<Rightarrow> string" where
  "specStripHistoryNumber payload =
     trim (dropWhile (\<lambda>c. \<not> isWhiteSpace c) (trim payload))"

section \<open>Properties\<close>

subsection \<open>Entering application mode\<close>

text \<open>
  Claim C1. When the parameter list is empty or its first parameter is not the session
  cookie, \<^verbatim>\<open>#handleApplicationModeStart\<close> answers \<open>ABORT\<close>; the active mode, the
  bracket style and the cookie are what they were, so no mode is selected and no bracket
  start can follow. The one field written is the accumulation buffer, which is emptied
  before the cookie is looked at.
\<close>

theorem handleApplicationModeStart_cookie_check:
  assumes "params = [] \<or> hd params \<noteq> cookie s"
  shows "handleApplicationModeStart env params s = ((ABORT, None), s\<lparr>applicationModeData := Some []\<rparr>)
         \<and> applicationMode (snd (handleApplicationModeStart env params s)) = applicationMode s
         \<and> bracketStyle (snd (handleApplicationModeStart env params s)) = bracketStyle s
         \<and> cookie (snd (handleApplicationModeStart env params s)) = cookie s"
  using assms by (cases params) (auto simp: handleApplicationModeStart_def)

theorem handleApplicationModeStart_cookie_check_witness:
  "([''wrong'', ''2'', ''bash''] = [] \<or> hd [''wrong'', ''2'', ''bash''] \<noteq> cookie (newTerminal ''abc123'' ()))
   \<and> fst (handleApplicationModeStart (plainCollaborators None None) [''wrong'', ''2'', ''bash'']
            (newTerminal ''abc123'' ())) = (ABORT, None)
   \<and> applicationMode (snd (handleApplicationModeStart (plainCollaborators None None)
            [''wrong'', ''2'', ''bash''] (newTerminal ''abc123'' ()))) = APPLICATION_MODE_NONE"
  using handleApplicationModeStart_cookie_check
          [of "[''wrong'', ''2'', ''bash'']" "newTerminal ''abc123'' ()" "plainCollaborators None None"]
  by (simp add: newTerminal_def)

subsection \<open>Leaving application mode\<close>

text \<open>
  For the three buffered modes and for no mode at all, a call of
  \<^verbatim>\<open>#handleApplicationModeEnd\<close> that returns leaves the mode at
  \<^verbatim>\<open>APPLICATION_MODE_NONE\<close> and the buffer at \<^verbatim>\<open>null\<close>.
\<close>

lemma handleApplicationModeEnd_buffered_modes_reset:
  assumes "applicationMode s \<noteq> APPLICATION_MODE_SHOW_FILE"
      and "handleApplicationModeEnd env s = Inr (response, s')"
  shows "applicationMode s' = APPLICATION_MODE_NONE \<and> applicationModeData s' = None
         \<and> response = (CONTINUE, None)"
  using assms
  by (auto simp: handleApplicationModeEnd_def resetApplicationMode_def
           split: ApplicationMode.splits sum.splits)

text \<open>
  Claim C7. The claim asks for the mode to be \<^verbatim>\<open>APPLICATION_MODE_NONE\<close> and the buffer
  to be cleared after the end handler, in mode \<^verbatim>\<open>APPLICATION_MODE_SHOW_FILE\<close> as in the
  others. In that mode the handler returns the download handler's answer at once: run
  on a terminal in mode \<^verbatim>\<open>APPLICATION_MODE_SHOW_FILE\<close> with an empty buffer, it gives
  the very same state back, mode and buffer included.
\<close>

theorem handleApplicationModeEnd_show_file_not_reset:
  "handleApplicationModeEnd (plainCollaborators None None)
     ((newTerminal ''abc123'' ())\<lparr>applicationMode := APPLICATION_MODE_SHOW_FILE,
                                   applicationModeData := Some []\<rparr>)
   = Inr ((CONTINUE, None),
          (newTerminal ''abc123'' ())\<lparr>applicationMode := APPLICATION_MODE_SHOW_FILE,
                                        applicationModeData := Some []\<rparr>)"
  by (simp add: handleApplicationModeEnd_def plainCollaborators_def)

subsection \<open>The input filter of a frame replay upload\<close>

lemma indexOf_absent: "c \<notin> set xs \<Longrightarrow> indexOf xs c = -1"
  by (induction xs) auto

lemma indexOf_present:
  "c \<in> set xs \<Longrightarrow> 0 \<le> indexOf xs c \<and> indexOf xs c < int (length xs)
     \<and> drop (nat (indexOf xs c)) xs = dropWhile (\<lambda>x. x \<noteq> c) xs"
proof (induction xs)
  case Nil
  then show ?case by simp
next
  case (Cons x xs)
  show ?case
  proof (cases "x = c")
    case True
    then show ?thesis by simp
  next
    case False
    with Cons have "c \<in> set xs" by simp
    with Cons.IH have ih: "0 \<le> indexOf xs c" "indexOf xs c < int (length xs)"
      "drop (nat (indexOf xs c)) xs = dropWhile (\<lambda>x. x \<noteq> c) xs" by auto
    from ih(1) have "indexOf xs c \<noteq> -1" by simp
    with False ih show ?thesis by (simp add: Let_def nat_add_distrib)
  qed
qed

lemma indexOf_minus_one_iff: "indexOf xs c = -1 \<longleftrightarrow> c \<notin> set xs"
  using indexOf_absent [of c xs] indexOf_present [of c xs] by auto

lemma substring_after_first:
  assumes "c \<in> set xs"
  shows "substring xs (indexOf xs c + 1) = tl (dropWhile (\<lambda>x. x \<noteq> c) xs)"
proof -
  from indexOf_present [OF assms] have i: "0 \<le> indexOf xs c" "indexOf xs c < int (length xs)"
    and d: "drop (nat (indexOf xs c)) xs = dropWhile (\<lambda>x. x \<noteq> c) xs" by auto
  have "substring xs (indexOf xs c + 1) = drop (nat (indexOf xs c) + 1) xs"
    using i by (simp add: substring_def nat_add_distrib min_def max_def)
  also have "\<dots> = tl (drop (nat (indexOf xs c)) xs)"
    by (simp add: drop_Suc tl_drop)
  finally show ?thesis using d by simp
qed

lemma uploadInputFilter_no_interrupt:
  "CHR 0x03 \<notin> set input \<Longrightarrow> uploadInputFilter uploader input s = ([], s)"
  by (simp add: uploadInputFilter_def indexOf_absent)

lemma applyInputStreamFilters_empty_input:
  "applyInputStreamFilters fs [] s = ([], s)"
  by (induction fs) (simp_all add: uploadInputFilter_def)

lemma applyInputStreamFilters_no_interrupt:
  "fs \<noteq> [] \<Longrightarrow> CHR 0x03 \<notin> set input \<Longrightarrow> applyInputStreamFilters fs input s = ([], s)"
  by (cases fs) (simp_all add: uploadInputFilter_no_interrupt applyInputStreamFilters_empty_input)

lemma uploadInputFilter_interrupt:
  assumes "CHR 0x03 \<in> set input"
  shows "uploadInputFilter uploader input s =
           (tl (dropWhile (\<lambda>c. c \<noteq> CHR 0x03) input),
            s\<lparr>uploaderHeap := (uploaderHeap s)(uploader :=
                 (uploaderHeap s uploader)\<lparr>abortCalled := True\<rparr>),
              inputStreamFilters := filter (\<lambda>f. f \<noteq> uploader) (inputStreamFilters s)\<rparr>)"
proof -
  from assms have "indexOf input (CHR 0x03) \<noteq> -1" by (simp add: indexOf_minus_one_iff)
  then show ?thesis
    using assms by (simp add: uploadInputFilter_def substring_after_first)
qed

text \<open>
  No filter and no write to the pty undoes an abort or registers a filter again.
\<close>

lemma sendToPty_filters:
  "inputStreamFilters (sendToPty text s) = inputStreamFilters s"
  "uploaderHeap (sendToPty text s) = uploaderHeap s"
  by (simp_all add: sendToPty_def split: option.splits)

lemma uploadInputFilter_keeps_abort:
  "abortCalled (uploaderHeap s u)
     \<Longrightarrow> abortCalled (uploaderHeap (snd (uploadInputFilter f d s)) u)"
  by (simp add: uploadInputFilter_def Let_def)

lemma uploadInputFilter_keeps_unregistered:
  "u \<notin> set (inputStreamFilters s)
     \<Longrightarrow> u \<notin> set (inputStreamFilters (snd (uploadInputFilter f d s)))"
  by (simp add: uploadInputFilter_def Let_def)

lemma applyInputStreamFilters_keeps_abort:
  "abortCalled (uploaderHeap s u)
     \<Longrightarrow> abortCalled (uploaderHeap (snd (applyInputStreamFilters fs d s)) u)"
proof (induction fs arbitrary: d s)
  case Nil
  then show ?case by simp
next
  case (Cons f fs)
  obtain d1 s1 where f: "uploadInputFilter f d s = (d1, s1)" by (cases "uploadInputFilter f d s")
  with uploadInputFilter_keeps_abort [OF Cons.prems, of f d]
  have "abortCalled (uploaderHeap s1 u)" by simp
  from Cons.IH [OF this, of d1] f show ?case by simp
qed

lemma applyInputStreamFilters_keeps_unregistered:
  "u \<notin> set (inputStreamFilters s)
     \<Longrightarrow> u \<notin> set (inputStreamFilters (snd (applyInputStreamFilters fs d s)))"
proof (induction fs arbitrary: d s)
  case Nil
  then show ?case by simp
next
  case (Cons f fs)
  obtain d1 s1 where f: "uploadInputFilter f d s = (d1, s1)" by (cases "uploadInputFilter f d s")
  with uploadInputFilter_keeps_unregistered [OF Cons.prems, of f d]
  have "u \<notin> set (inputStreamFilters s1)" by simp
  from Cons.IH [OF this, of d1] f show ?case by simp
qed

lemma uploadingTerminal_fields:
  "inputStreamFilters uploadingTerminal = [0] \<and> pty uploadingTerminal = Some []"
  by (simp add: uploadingTerminal_def handleRequestFrame_def plainCollaborators_def newTerminal_def
        initUploadProgressBar_def updateProgressBar_def)

lemma twoUploadsTerminal_fields:
  "inputStreamFilters twoUploadsTerminal = [0, 1] \<and> pty twoUploadsTerminal = Some []"
  by (simp add: twoUploadsTerminal_def uploadingTerminal_def handleRequestFrame_def
        plainCollaborators_def newTerminal_def initUploadProgressBar_def updateProgressBar_def)

text \<open>
  Claim C10, as amended. While upload filters are registered, terminal input without the
  byte 0x03 is turned into the empty string by the filter and \<^verbatim>\<open>#handleTermData\<close>
  sends nothing: the state is unchanged. On an input that holds 0x03 the upload whose
  filter is first in \<^verbatim>\<open>#inputStreamFilters\<close> is aborted and that filter is taken out;
  what follows the first 0x03 is handed to the filters of the other uploads, and what
  they leave of it is sent to the pty. With another upload running and no second 0x03
  in that text, nothing is sent and the other filters stay registered. With no other
  upload running, what follows the first 0x03 is sent to the pty (nothing is sent when
  nothing follows), no filter is left, and from then on every non-empty input goes to
  the pty.
\<close>

theorem upload_input_filter:
  shows "(inputStreamFilters s \<noteq> [] \<and> CHR 0x03 \<notin> set input \<longrightarrow>
            fst (uploadInputFilter uploader input s) = [] \<and> handleTermData input s = s)
       \<and> (inputStreamFilters s = uploader # others \<and> CHR 0x03 \<in> set input \<longrightarrow>
            abortCalled (uploaderHeap (handleTermData input s) uploader)
          \<and> uploader \<notin> set (inputStreamFilters (handleTermData input s))
          \<and> handleTermData input s =
              (let after = tl (dropWhile (\<lambda>c. c \<noteq> CHR 0x03) input);
                   (filteredData, s1) = applyInputStreamFilters others after
                      (s\<lparr>uploaderHeap := (uploaderHeap s)(uploader :=
                            (uploaderHeap s uploader)\<lparr>abortCalled := True\<rparr>),
                         inputStreamFilters := filter (\<lambda>f. f \<noteq> uploader) others\<rparr>)
               in if filteredData \<noteq> [] then sendToPty filteredData s1 else s1)
          \<and> (others \<noteq> [] \<and> CHR 0x03 \<notin> set (tl (dropWhile (\<lambda>c. c \<noteq> CHR 0x03) input)) \<longrightarrow>
                pty (handleTermData input s) = pty s
              \<and> inputStreamFilters (handleTermData input s) = filter (\<lambda>f. f \<noteq> uploader) others))
       \<and> (inputStreamFilters s = [uploader] \<and> CHR 0x03 \<in> set input \<longrightarrow>
            abortCalled (uploaderHeap (handleTermData input s) uploader)
          \<and> inputStreamFilters (handleTermData input s) = []
          \<and> pty (handleTermData input s) =
              (let after = tl (dropWhile (\<lambda>c. c \<noteq> CHR 0x03) input)
               in if after = [] then pty s else map_option (\<lambda>written. written @ [after]) (pty s))
          \<and> (\<forall>later. later \<noteq> [] \<longrightarrow>
                handleTermData later (handleTermData input s)
                  = sendToPty later (handleTermData input s)))"
proof (intro conjI impI)
  assume a: "inputStreamFilters s \<noteq> [] \<and> CHR 0x03 \<notin> set input"
  then show "fst (uploadInputFilter uploader input s) = []"
    by (simp add: uploadInputFilter_no_interrupt)
  from a show "handleTermData input s = s"
    by (simp add: handleTermData_def applyInputStreamFilters_no_interrupt)
next
  assume a: "inputStreamFilters s = uploader # others \<and> CHR 0x03 \<in> set input"
  define after where "after = tl (dropWhile (\<lambda>c. c \<noteq> CHR 0x03) input)"
  define s0 where "s0 = s\<lparr>uploaderHeap := (uploaderHeap s)(uploader :=
                    (uploaderHeap s uploader)\<lparr>abortCalled := True\<rparr>),
                 inputStreamFilters := filter (\<lambda>f. f \<noteq> uploader) others\<rparr>"
  have f: "uploadInputFilter uploader input s = (after, s0)"
    using a by (simp add: uploadInputFilter_interrupt after_def s0_def)
  obtain out s1 where r: "applyInputStreamFilters others after s0 = (out, s1)"
    by (cases "applyInputStreamFilters others after s0")
  have h: "handleTermData input s = (if out \<noteq> [] then sendToPty out s1 else s1)"
    using a f r by (simp add: handleTermData_def)
  have ab0: "abortCalled (uploaderHeap s0 uploader)" by (simp add: s0_def)
  have un0: "uploader \<notin> set (inputStreamFilters s0)" by (simp add: s0_def)
  from applyInputStreamFilters_keeps_abort [OF ab0, of others after] r
  have ab1: "abortCalled (uploaderHeap s1 uploader)" by simp
  from applyInputStreamFilters_keeps_unregistered [OF un0, of others after] r
  have un1: "uploader \<notin> set (inputStreamFilters s1)" by simp
  show "abortCalled (uploaderHeap (handleTermData input s) uploader)"
    using ab1 by (simp add: h sendToPty_filters)
  show "uploader \<notin> set (inputStreamFilters (handleTermData input s))"
    using un1 by (simp add: h sendToPty_filters)
  show "handleTermData input s =
              (let after = tl (dropWhile (\<lambda>c. c \<noteq> CHR 0x03) input);
                   (filteredData, s1) = applyInputStreamFilters others after
                      (s\<lparr>uploaderHeap := (uploaderHeap s)(uploader :=
                            (uploaderHeap s uploader)\<lparr>abortCalled := True\<rparr>),
                         inputStreamFilters := filter (\<lambda>f. f \<noteq> uploader) others\<rparr>)
               in if filteredData \<noteq> [] then sendToPty filteredData s1 else s1)"
    unfolding Let_def after_def [symmetric] s0_def [symmetric] by (simp add: h r)
  show "pty (handleTermData input s) = pty s"
    if b: "others \<noteq> [] \<and> CHR 0x03 \<notin> set (tl (dropWhile (\<lambda>c. c \<noteq> CHR 0x03) input))"
  proof -
    from b have "applyInputStreamFilters others after s0 = ([], s0)"
      by (simp add: applyInputStreamFilters_no_interrupt after_def)
    with r have "out = []" "s1 = s0" by simp_all
    then show ?thesis by (simp add: h s0_def)
  qed
  show "inputStreamFilters (handleTermData input s) = filter (\<lambda>f. f \<noteq> uploader) others"
    if b: "others \<noteq> [] \<and> CHR 0x03 \<notin> set (tl (dropWhile (\<lambda>c. c \<noteq> CHR 0x03) input))"
  proof -
    from b have "applyInputStreamFilters others after s0 = ([], s0)"
      by (simp add: applyInputStreamFilters_no_interrupt after_def)
    with r have "out = []" "s1 = s0" by simp_all
    then show ?thesis by (simp add: h s0_def)
  qed
next
  assume a: "inputStreamFilters s = [uploader] \<and> CHR 0x03 \<in> set input"
  define after where "after = tl (dropWhile (\<lambda>c. c \<noteq> CHR 0x03) input)"
  define s1 where "s1 = s\<lparr>uploaderHeap := (uploaderHeap s)(uploader :=
                    (uploaderHeap s uploader)\<lparr>abortCalled := True\<rparr>),
                 inputStreamFilters := []\<rparr>"
  have f: "uploadInputFilter uploader input s = (after, s1)"
    using a by (simp add: uploadInputFilter_interrupt after_def s1_def)
  have h: "handleTermData input s = (if after \<noteq> [] then sendToPty after s1 else s1)"
    using a f by (simp add: handleTermData_def)
  show "abortCalled (uploaderHeap (handleTermData input s) uploader)"
    by (simp add: h s1_def sendToPty_def split: option.splits)
  show fl: "inputStreamFilters (handleTermData input s) = []"
    by (simp add: h s1_def sendToPty_def split: option.splits)
  show "pty (handleTermData input s) =
          (let after = tl (dropWhile (\<lambda>c. c \<noteq> CHR 0x03) input)
           in if after = [] then pty s else map_option (\<lambda>written. written @ [after]) (pty s))"
    unfolding Let_def after_def [symmetric]
    by (simp add: h s1_def sendToPty_def split: option.splits)
  show "\<forall>later. later \<noteq> [] \<longrightarrow>
          handleTermData later (handleTermData input s) = sendToPty later (handleTermData input s)"
    using fl by (simp add: handleTermData_def)
qed

theorem upload_input_filter_witness:
  "inputStreamFilters uploadingTerminal \<noteq> [] \<and> CHR 0x03 \<notin> set ''ls''
   \<and> handleTermData ''ls'' uploadingTerminal = uploadingTerminal
   \<and> inputStreamFilters uploadingTerminal = [0] \<and> CHR 0x03 \<in> set (''a'' @ [CHR 0x03] @ ''bc'')
   \<and> abortCalled (uploaderHeap (handleTermData (''a'' @ [CHR 0x03] @ ''bc'') uploadingTerminal) 0)
   \<and> inputStreamFilters (handleTermData (''a'' @ [CHR 0x03] @ ''bc'') uploadingTerminal) = []
   \<and> pty (handleTermData (''a'' @ [CHR 0x03] @ ''bc'') uploadingTerminal) = Some [''bc'']
   \<and> inputStreamFilters twoUploadsTerminal = [0, 1]
   \<and> [1::nat] \<noteq> []
   \<and> CHR 0x03 \<notin> set (tl (dropWhile (\<lambda>c. c \<noteq> CHR 0x03) (''a'' @ [CHR 0x03] @ ''bc'')))
   \<and> abortCalled (uploaderHeap (handleTermData (''a'' @ [CHR 0x03] @ ''bc'') twoUploadsTerminal) 0)
   \<and> 0 \<notin> set (inputStreamFilters (handleTermData (''a'' @ [CHR 0x03] @ ''bc'') twoUploadsTerminal))
   \<and> pty (handleTermData (''a'' @ [CHR 0x03] @ ''bc'') twoUploadsTerminal) = pty twoUploadsTerminal
   \<and> inputStreamFilters (handleTermData (''a'' @ [CHR 0x03] @ ''bc'') twoUploadsTerminal) = [1]"
proof -
  have one: "inputStreamFilters uploadingTerminal = [0]"
    by (simp add: uploadingTerminal_fields)
  have two: "inputStreamFilters twoUploadsTerminal = [0, 1]" "pty twoUploadsTerminal = Some []"
    by (simp_all add: twoUploadsTerminal_fields)
  have quiet: "inputStreamFilters uploadingTerminal \<noteq> [] \<and> CHR 0x03 \<notin> set ''ls''"
    by (simp add: one)
  have single: "inputStreamFilters uploadingTerminal = [0]
                  \<and> CHR 0x03 \<in> set (''a'' @ [CHR 0x03] @ ''bc'')"
    by (simp add: one)
  have first: "inputStreamFilters twoUploadsTerminal = 0 # [1]
                 \<and> CHR 0x03 \<in> set (''a'' @ [CHR 0x03] @ ''bc'')"
    by (simp add: two)
  have rest: "[1::nat] \<noteq> []
                \<and> CHR 0x03 \<notin> set (tl (dropWhile (\<lambda>c. c \<noteq> CHR 0x03) (''a'' @ [CHR 0x03] @ ''bc'')))"
    by simp
  note a = upload_input_filter
             [where s = uploadingTerminal and input = "''ls''" and uploader = 0 and others = "[]",
              THEN conjunct1, THEN mp, OF quiet]
  note b = upload_input_filter
             [where s = uploadingTerminal and input = "''a'' @ [CHR 0x03] @ ''bc''"
                and uploader = 0 and others = "[]",
              THEN conjunct2, THEN conjunct2, THEN mp, OF single]
  note c = upload_input_filter
             [where s = twoUploadsTerminal and input = "''a'' @ [CHR 0x03] @ ''bc''"
                and uploader = 0 and others = "[1]",
              THEN conjunct2, THEN conjunct1, THEN mp, OF first]
  note d = c [THEN conjunct2, THEN conjunct2, THEN conjunct2, THEN mp, OF rest]
  from b have p: "pty (handleTermData (''a'' @ [CHR 0x03] @ ''bc'') uploadingTerminal) = Some [''bc'']"
    by (simp add: uploadingTerminal_fields)
  from d have f: "inputStreamFilters (handleTermData (''a'' @ [CHR 0x03] @ ''bc'') twoUploadsTerminal)
                    = [1]"
    by simp
  show ?thesis
    using quiet single rest two a [THEN conjunct2] b [THEN conjunct1]
      b [THEN conjunct2, THEN conjunct1] p c [THEN conjunct1] c [THEN conjunct2, THEN conjunct1]
      d [THEN conjunct1] f
    by blast
qed

text \<open>
  Claim C10 as first stated speaks of every input while an upload is in progress. With
  two uploads in progress the input \<^verbatim>\<open>a\<close>, 0x03, \<^verbatim>\<open>b\<close> aborts the first upload only:
  the second upload is not aborted and its filter stays registered, the \<^verbatim>\<open>b\<close> after
  the 0x03 is not sent to the pty, and the next input does not reach the pty either.
\<close>

theorem upload_input_filter_counterexample:
  "inputStreamFilters twoUploadsTerminal = [0, 1]
   \<and> uploadCalled (uploaderHeap twoUploadsTerminal 0)
   \<and> uploadCalled (uploaderHeap twoUploadsTerminal 1)
   \<and> \<not> abortCalled (uploaderHeap twoUploadsTerminal 1)
   \<and> pty twoUploadsTerminal = Some []
   \<and> abortCalled (uploaderHeap (handleTermData (''a'' @ [CHR 0x03] @ ''b'') twoUploadsTerminal) 0)
   \<and> \<not> abortCalled (uploaderHeap (handleTermData (''a'' @ [CHR 0x03] @ ''b'') twoUploadsTerminal) 1)
   \<and> inputStreamFilters (handleTermData (''a'' @ [CHR 0x03] @ ''b'') twoUploadsTerminal) = [1]
   \<and> pty (handleTermData (''a'' @ [CHR 0x03] @ ''b'') twoUploadsTerminal) = Some []
   \<and> pty (handleTermData ''ls''
            (handleTermData (''a'' @ [CHR 0x03] @ ''b'') twoUploadsTerminal)) = Some []"
  by (simp add: handleTermData_def uploadInputFilter_def substring_def
        twoUploadsTerminal_def uploadingTerminal_def handleRequestFrame_def sendToPty_def
        plainCollaborators_def newTerminal_def initUploadProgressBar_def updateProgressBar_def
        unallocatedUploader_def Let_def)

subsection \<open>Frame replay requests\<close>

lemma handleRequestFrame_unknown:
  "frameFinder env = Some finder \<Longrightarrow> finder frameId = None \<Longrightarrow>
     handleRequestFrame env frameId s = sendToPty (''#error'' @ [CHR 0x0A]) s"
  by (simp add: handleRequestFrame_def)

lemma handleRequestFrame_found:
  assumes "frameFinder env = Some finder" "finder frameId = Some bulkFile"
  shows "pty (handleRequestFrame env frameId s) = pty s
       \<and> uploaderHeap (handleRequestFrame env frameId s) (nextUploaderRef s) =
            \<lparr>uploaderFile = bulkFile, uploaderHasPty = (pty s \<noteq> None),
             uploadCalled = True, abortCalled = False\<rparr>
       \<and> inputStreamFilters (handleRequestFrame env frameId s) = inputStreamFilters s @ [nextUploaderRef s]"
  using assms
  by (simp add: handleRequestFrame_def Let_def initUploadProgressBar_def updateProgressBar_def
           split: option.splits)

text \<open>
  Claim C9. At the end of a frame replay request the end handler returns. When the
  frame finder answers \<^verbatim>\<open>null\<close> for the accumulated identifier, the text
  \<^verbatim>\<open>"#error\n"\<close> is appended to what the pty was sent (\<^verbatim>\<open>sendToPty\<close> writes to the
  pty the terminal has), and no uploader is made and no filter registered. When it
  answers a file, nothing is written by the handler itself: an uploader is made for that
  file with the terminal's pty, its \<^verbatim>\<open>upload()\<close> is called and its filter is
  registered.
\<close>

theorem request_frame_completion:
  assumes "applicationMode s = APPLICATION_MODE_REQUEST_FRAME"
      and "frameFinder env = Some finder"
  shows "\<exists>s'. handleApplicationModeEnd env s = Inr ((CONTINUE, None), s')
          \<and> (case finder (applicationModeData s) of
                None \<Rightarrow>
                  pty s' = map_option (\<lambda>written. written @ [''#error'' @ [CHR 0x0A]]) (pty s)
                  \<and> uploaderHeap s' = uploaderHeap s
                  \<and> nextUploaderRef s' = nextUploaderRef s
                  \<and> inputStreamFilters s' = inputStreamFilters s
              | Some bulkFile \<Rightarrow>
                  pty s' = pty s
                  \<and> uploaderHeap s' (nextUploaderRef s) =
                       \<lparr>uploaderFile = bulkFile, uploaderHasPty = (pty s \<noteq> None),
                        uploadCalled = True, abortCalled = False\<rparr>
                  \<and> inputStreamFilters s' = inputStreamFilters s @ [nextUploaderRef s])"
proof (cases "finder (applicationModeData s)")
  case None
  with assms show ?thesis
    by (simp add: handleApplicationModeEnd_def resetApplicationMode_def
          handleRequestFrame_unknown sendToPty_def split: option.splits)
next
  case (Some bulkFile)
  with assms handleRequestFrame_found [OF assms(2) Some, of s] show ?thesis
    by (simp add: handleApplicationModeEnd_def resetApplicationMode_def)
qed

theorem request_frame_completion_witness:
  "applicationMode (requestingTerminal ''8'') = APPLICATION_MODE_REQUEST_FRAME
   \<and> frameFinder (plainCollaborators None (Some oneFrameFinder)) = Some oneFrameFinder
   \<and> (\<exists>s'. handleApplicationModeEnd (plainCollaborators None (Some oneFrameFinder))
               (requestingTerminal ''8'') = Inr ((CONTINUE, None), s')
            \<and> pty s' = Some [''#error'' @ [CHR 0x0A]]
            \<and> inputStreamFilters s' = [])
   \<and> (\<exists>s'. handleApplicationModeEnd (plainCollaborators None (Some oneFrameFinder))
               (requestingTerminal ''7'') = Inr ((CONTINUE, None), s')
            \<and> pty s' = Some []
            \<and> uploadCalled (uploaderHeap s' 0)
            \<and> inputStreamFilters s' = [0])"
  using request_frame_completion
          [of "requestingTerminal ''8''" "plainCollaborators None (Some oneFrameFinder)" oneFrameFinder]
        request_frame_completion
          [of "requestingTerminal ''7''" "plainCollaborators None (Some oneFrameFinder)" oneFrameFinder]
  by (auto simp: requestingTerminal_def plainCollaborators_def oneFrameFinder_def newTerminal_def)

subsection \<open>The frame decision\<close>

lemma frameRuleDecision_spec: "frameRuleDecision rule k n = specRuleResult rule k n"
  by (cases rule) (simp_all add: frameRuleDecision_def)

lemma commandLineActionsLoop_first_match:
  assumes "\<forall>c \<in> set (takeWhile (\<lambda>c. commandLineActionMatches rx cl c \<noteq> Inr True) clas).
             commandLineActionMatches rx cl c = Inr False"
  shows "commandLineActionsLoop rx cl n clas =
           Inr (map_option (\<lambda>cla. specRuleResult (frameRule cla) (frameRuleLines cla) n)
                  (find (\<lambda>cla. commandLineActionMatches rx cl cla = Inr True) clas))"
  using assms
proof (induction clas)
  case Nil
  show ?case by simp
next
  case (Cons cla clas)
  define noMatch where "noMatch = (\<lambda>c. commandLineActionMatches rx cl c \<noteq> Inr True)"
  have prem: "\<forall>c \<in> set (takeWhile noMatch (cla # clas)).
                commandLineActionMatches rx cl c = Inr False"
    using Cons.prems unfolding noMatch_def .
  show ?case
  proof (cases "commandLineActionMatches rx cl cla = Inr True")
    case True
    have "commandLineActionsLoop rx cl n (cla # clas) =
            Inr (Some (frameRuleDecision (frameRule cla) (frameRuleLines cla) n))"
      by (simp add: True)
    moreover have "find (\<lambda>cla. commandLineActionMatches rx cl cla = Inr True) (cla # clas) = Some cla"
      by (simp add: True)
    ultimately show ?thesis by (simp only: frameRuleDecision_spec option.map)
  next
    case False
    then have tw: "takeWhile noMatch (cla # clas) = cla # takeWhile noMatch clas"
      by (simp add: noMatch_def)
    from prem have f: "commandLineActionMatches rx cl cla = Inr False"
      unfolding tw by (rule bspec) simp
    have rest: "\<forall>c \<in> set (takeWhile noMatch clas). commandLineActionMatches rx cl c = Inr False"
      using prem unfolding tw by (meson list.set_intros(2))
    have ih: "commandLineActionsLoop rx cl n clas =
           Inr (map_option (\<lambda>cla. specRuleResult (frameRule cla) (frameRuleLines cla) n)
                  (find (\<lambda>cla. commandLineActionMatches rx cl cla = Inr True) clas))"
      by (rule Cons.IH) (rule rest [unfolded noMatch_def])
    have "commandLineActionsLoop rx cl n (cla # clas) = commandLineActionsLoop rx cl n clas"
      by (simp add: f)
    moreover have "find (\<lambda>cla. commandLineActionMatches rx cl cla = Inr True) (cla # clas)
                     = find (\<lambda>cla. commandLineActionMatches rx cl cla = Inr True) clas"
      by (simp add: f)
    ultimately show ?thesis by (simp only: ih)
  qed
qed

lemma sample_command_parts:
  "trim ''ls -la'' = ''ls -la'' \<and> splitWhiteSpace ''ls -la'' = [''ls'', ''-la'']"
  by (simp add: trim_def isWhiteSpace_def)

lemma sample_rule_git:
  "commandLineActionMatches sampleRegExp ''ls -la''
     \<lparr>match = ''git'', matchType = name, frameRule = never_frame, frameRuleLines = 0\<rparr> = Inr False"
  by (simp add: commandLineActionMatches_def sample_command_parts isWhiteSpace_def)

lemma sample_rule_ls:
  "commandLineActionMatches sampleRegExp ''ls -la''
     \<lparr>match = ''ls'', matchType = name, frameRule = frame_if_lines, frameRuleLines = 3\<rparr> = Inr True"
  by (simp add: commandLineActionMatches_def sample_command_parts isWhiteSpace_def)

text \<open>
  Claim C6, as amended. \<^verbatim>\<open>#commandNeedsFrame\<close> first answers false, without looking at
  any rule, for a \<^verbatim>\<open>null\<close> command line, for a command line that is blank after
  trimming, and when there is no configuration database. Otherwise, when every
  per-command rule before the first matching one evaluates to "no match", the answer is
  the one the specification words: the first matching per-command rule decides, else
  the global rule, by the mapping of \<open>specRuleResult\<close>; with the line count unknown
  (\<open>-1\<close>) a frame-if-lines rule gives false.
\<close>

theorem commandNeedsFrame_decision:
  shows "commandNeedsFrame rx db None n = Inr False
       \<and> (trim blank = [] \<longrightarrow> commandNeedsFrame rx db (Some blank) n = Inr False)
       \<and> commandNeedsFrame rx None cmd n = Inr False
       \<and> (trim cl \<noteq> []
            \<and> (\<forall>c \<in> set (takeWhile (\<lambda>c. commandLineActionMatches rx cl c \<noteq> Inr True)
                              (perCommandRules cfg)).
                   commandLineActionMatches rx cl c = Inr False)
          \<longrightarrow> commandNeedsFrame rx (Some cfg) (Some cl) n = Inr (specFrameDecision rx cfg cl n))
       \<and> specRuleResult frame_if_lines threshold (-1) = False"
proof (intro conjI impI)
  show "commandNeedsFrame rx db None n = Inr False" by (simp add: commandNeedsFrame_def)
  show "commandNeedsFrame rx db (Some blank) n = Inr False" if "trim blank = []"
    using that by (simp add: commandNeedsFrame_def)
  show "commandNeedsFrame rx None cmd n = Inr False"
    by (simp add: commandNeedsFrame_def split: option.splits)
  show "specRuleResult frame_if_lines threshold (-1) = False" by simp
next
  assume a: "trim cl \<noteq> []
            \<and> (\<forall>c \<in> set (takeWhile (\<lambda>c. commandLineActionMatches rx cl c \<noteq> Inr True)
                              (perCommandRules cfg)).
                   commandLineActionMatches rx cl c = Inr False)"
  then have nonblank: "trim cl \<noteq> []" by blast
  from a have loop: "commandLineActionsLoop rx cl n (perCommandRules cfg) =
           Inr (map_option (\<lambda>cla. specRuleResult (frameRule cla) (frameRuleLines cla) n)
                  (find (\<lambda>cla. commandLineActionMatches rx cl cla = Inr True) (perCommandRules cfg)))"
    using commandLineActionsLoop_first_match by blast
  have "commandNeedsFrame rx (Some cfg) (Some cl) n =
          (case commandLineActionsLoop rx cl n (perCommandRules cfg) of
             Inl e \<Rightarrow> Inl e
           | Inr (Some b) \<Rightarrow> Inr b
           | Inr None \<Rightarrow> Inr (frameRuleDecision (gcFrameRule (getGeneralConfig cfg))
                                       (gcFrameRuleLines (getGeneralConfig cfg)) n))"
    using nonblank by (auto simp: commandNeedsFrame_def perCommandRules_def Let_def
                            split: sum.splits option.splits)
  then show "commandNeedsFrame rx (Some cfg) (Some cl) n = Inr (specFrameDecision rx cfg cl n)"
    by (simp add: loop specFrameDecision_def frameRuleDecision_spec split: option.splits)
qed

theorem commandNeedsFrame_decision_witness:
  "trim ''  '' = []
   \<and> commandNeedsFrame sampleRegExp (Some sampleRules) (Some ''  '') 9 = Inr False
   \<and> trim ''ls -la'' \<noteq> []
   \<and> commandLineActionMatches sampleRegExp ''ls -la''
       \<lparr>match = ''git'', matchType = name, frameRule = never_frame, frameRuleLines = 0\<rparr> = Inr False
   \<and> commandNeedsFrame sampleRegExp (Some sampleRules) (Some ''ls -la'') 4 = Inr True
   \<and> commandNeedsFrame sampleRegExp (Some sampleRules) (Some ''ls -la'') 3 = Inr False
   \<and> commandNeedsFrame sampleRegExp (Some sampleRules) (Some ''ls -la'') (-1) = Inr False"
  using commandNeedsFrame_decision
          [of sampleRegExp "Some sampleRules" 9 "''  ''" undefined "''ls -la''" sampleRules 0]
        commandNeedsFrame_decision
          [of sampleRegExp "Some sampleRules" 4 "''  ''" undefined "''ls -la''" sampleRules 0]
        commandNeedsFrame_decision
          [of sampleRegExp "Some sampleRules" 3 "''  ''" undefined "''ls -la''" sampleRules 0]
        commandNeedsFrame_decision
          [of sampleRegExp "Some sampleRules" "-1" "''  ''" undefined "''ls -la''" sampleRules 0]
  by (simp add: perCommandRules_def sampleRules_def sample_rule_git sample_rule_ls
        specFrameDecision_def sample_command_parts trim_def isWhiteSpace_def)

text \<open>
  Claim C6 as first stated has no such guard. For the blank command line of two spaces
  the one per-command rule matches and says always-frame, the global rule says
  always-frame too, and the answer is false.
\<close>

theorem commandNeedsFrame_blank_counterexample:
  "commandLineActionMatches sampleRegExp ''  ''
     \<lparr>match = ''.*'', matchType = regexp, frameRule = always_frame, frameRuleLines = 0\<rparr> = Inr True
   \<and> commandNeedsFrame sampleRegExp
       (Some \<lparr>getCommandLineActionConfig = Some
                [\<lparr>match = ''.*'', matchType = regexp, frameRule = always_frame, frameRuleLines = 0\<rparr>],
              getGeneralConfig = \<lparr>gcFrameRule = always_frame, gcFrameRuleLines = 0,
                                  scrollbackMaxLines = 50, scrollbackMaxFrames = 10\<rparr>\<rparr>)
       (Some ''  '') 9 = Inr False"
  by (simp add: commandLineActionMatches_def commandNeedsFrame_def sampleRegExp_def trim_def
        isWhiteSpace_def)

subsection \<open>The command line recorded at bracket start\<close>

lemma slice_at_first:
  assumes "c \<in> set t"
  shows "slice t (indexOf t c) = dropWhile (\<lambda>x. x \<noteq> c) t"
  using indexOf_present [OF assms] by (simp add: slice_def Let_def min_def)

lemma bracketStart_records_clean:
  assumes "handleApplicationModeBracketStart env s = Inr s'"
  shows "cleanCommandLine s = Inr (lastCommandLine s')"
  using assms
  by (auto simp: handleApplicationModeBracketStart_def Let_def
           split: sum.splits option.splits if_splits)

lemmas bracketStart_eval =
  handleApplicationModeBracketStart_def plainCollaborators_def bracketStartTerminal_def
  newTerminal_def cleanCommandLine_def trim_def isWhiteSpace_def slice_def commandNeedsFrame_def
  generalRule_def frameRuleDecision_def bracketStartInline_def moveCursorToFreshLine_def
  findLastBareTerminalBlockFrame_def getBlock_def isTerminalBlock_def newTerminalBlock_def
  getScrollbackLength_def setList_def

text \<open>
  Claim C5, as amended. When the bracket start handler returns on a buffer \<open>payload\<close>:
  under bracket style \<^verbatim>\<open>"bash"\<close>, if the trimmed payload holds a SPACE character, the
  recorded command line is the trimmed payload from its first SPACE on, trimmed; under
  any other style, or none, it is the payload as it is.
\<close>

theorem bracketStart_clean_command_line:
  assumes "handleApplicationModeBracketStart env s = Inr s'"
      and "applicationModeData s = Some payload"
  shows "(bracketStyle s = Some ''bash'' \<and> CHR '' '' \<in> set (trim payload) \<longrightarrow>
            lastCommandLine s' = Some (trim (dropWhile (\<lambda>c. c \<noteq> CHR '' '') (trim payload))))
       \<and> (bracketStyle s \<noteq> Some ''bash'' \<longrightarrow> lastCommandLine s' = Some payload)"
  using bracketStart_records_clean [OF assms(1)] assms(2)
  by (auto simp: cleanCommandLine_def Let_def slice_at_first)

theorem bracketStart_clean_command_line_witness:
  "\<not> isl (handleApplicationModeBracketStart
       (plainCollaborators (Some (generalRule never_frame 0)) None)
       (bracketStartTerminal (Some ''bash'') ''42 ls -la''))
   \<and> CHR '' '' \<in> set (trim ''42 ls -la'')
   \<and> lastCommandLine (projr (handleApplicationModeBracketStart
       (plainCollaborators (Some (generalRule never_frame 0)) None)
       (bracketStartTerminal (Some ''bash'') ''42 ls -la''))) = Some ''ls -la''
   \<and> \<not> isl (handleApplicationModeBracketStart
       (plainCollaborators (Some (generalRule never_frame 0)) None)
       (bracketStartTerminal (Some ''zsh'') ''42 ls -la''))
   \<and> lastCommandLine (projr (handleApplicationModeBracketStart
       (plainCollaborators (Some (generalRule never_frame 0)) None)
       (bracketStartTerminal (Some ''zsh'') ''42 ls -la''))) = Some ''42 ls -la''"
proof -
  have r1: "\<not> isl (handleApplicationModeBracketStart
       (plainCollaborators (Some (generalRule never_frame 0)) None)
       (bracketStartTerminal (Some ''bash'') ''42 ls -la''))"
    by (simp add: bracketStart_eval)
  have r2: "\<not> isl (handleApplicationModeBracketStart
       (plainCollaborators (Some (generalRule never_frame 0)) None)
       (bracketStartTerminal (Some ''zsh'') ''42 ls -la''))"
    by (simp add: bracketStart_eval)
  have sp: "CHR '' '' \<in> set (trim ''42 ls -la'')" by (simp add: trim_def isWhiteSpace_def)
  have d: "applicationModeData (bracketStartTerminal (Some ''bash'') ''42 ls -la'') = Some ''42 ls -la''"
     "applicationModeData (bracketStartTerminal (Some ''zsh'') ''42 ls -la'') = Some ''42 ls -la''"
     "bracketStyle (bracketStartTerminal (Some ''bash'') ''42 ls -la'') = Some ''bash''"
     "bracketStyle (bracketStartTerminal (Some ''zsh'') ''42 ls -la'') = Some ''zsh''"
    by (simp_all add: bracketStartTerminal_def)
  from bracketStart_clean_command_line
         [OF _ d(1), of "plainCollaborators (Some (generalRule never_frame 0)) None"
            "projr (handleApplicationModeBracketStart
               (plainCollaborators (Some (generalRule never_frame 0)) None)
               (bracketStartTerminal (Some ''bash'') ''42 ls -la''))"] r1 sp d(3)
  have a: "lastCommandLine (projr (handleApplicationModeBracketStart
       (plainCollaborators (Some (generalRule never_frame 0)) None)
       (bracketStartTerminal (Some ''bash'') ''42 ls -la''))) = Some ''ls -la''"
    by (simp add: trim_def isWhiteSpace_def)
  from bracketStart_clean_command_line
         [OF _ d(2), of "plainCollaborators (Some (generalRule never_frame 0)) None"
            "projr (handleApplicationModeBracketStart
               (plainCollaborators (Some (generalRule never_frame 0)) None)
               (bracketStartTerminal (Some ''zsh'') ''42 ls -la''))"] r2 d(4)
  have b: "lastCommandLine (projr (handleApplicationModeBracketStart
       (plainCollaborators (Some (generalRule never_frame 0)) None)
       (bracketStartTerminal (Some ''zsh'') ''42 ls -la''))) = Some ''42 ls -la''"
    by simp
  from a b r1 r2 sp show ?thesis by simp
qed

text \<open>
  Claim C5 as first stated slices at the first white space. With a TAB after the
  history number the handler returns, and the recorded command line is \<^verbatim>\<open>"-la"\<close>,
  while slicing at the first white space gives \<^verbatim>\<open>"ls -la"\<close>.
\<close>

theorem bracketStart_first_whitespace_counterexample:
  "lastCommandLine (projr (handleApplicationModeBracketStart
       (plainCollaborators (Some (generalRule never_frame 0)) None)
       (bracketStartTerminal (Some ''bash'') (''42'' @ [CHR 0x09] @ ''ls -la'')))) = Some ''-la''
   \<and> \<not> isl (handleApplicationModeBracketStart
       (plainCollaborators (Some (generalRule never_frame 0)) None)
       (bracketStartTerminal (Some ''bash'') (''42'' @ [CHR 0x09] @ ''ls -la'')))
   \<and> specStripHistoryNumber (''42'' @ [CHR 0x09] @ ''ls -la'') = ''ls -la''"
  by (simp add: bracketStart_eval specStripHistoryNumber_def)

subsection \<open>Frames made at bracket end\<close>

lemma moveCursorToFreshLine_fields:
  "blockFrames (moveCursorToFreshLine env s) = blockFrames s"
  "frameHeap (moveCursorToFreshLine env s) = frameHeap s"
  "nextFrameRef (moveCursorToFreshLine env s) = nextFrameRef s"
  "lastCommandLine (moveCursorToFreshLine env s) = lastCommandLine s"
  "lastCommandTerminalRow (moveCursorToFreshLine env s) = lastCommandTerminalRow s"
  "lastCommandTerminalViewer (moveCursorToFreshLine env s) = lastCommandTerminalViewer s"
  "getBlock (moveCursorToFreshLine env s) f = getBlock s f"
  by (simp_all add: moveCursorToFreshLine_def Let_def getBlock_def)

lemma closeLastTerminalFrame_fields:
  "blockFrames (closeLastTerminalFrame env s) = blockFrames s"
  "nextFrameRef (closeLastTerminalFrame env s) = nextFrameRef s"
  "lastCommandLine (closeLastTerminalFrame env s) = lastCommandLine s"
  "lastCommandTerminalRow (closeLastTerminalFrame env s) = lastCommandTerminalRow s"
  "lastCommandTerminalViewer (closeLastTerminalFrame env s) = lastCommandTerminalViewer s"
  "frameClass (frameHeap (closeLastTerminalFrame env s) f) = frameClass (frameHeap s f)"
  by (simp_all add: closeLastTerminalFrame_def Let_def getBlock_def setBlock_def
        split: option.splits Block.splits)

lemma closeLastTerminalFrame_terminal_block:
  assumes "getBlock s f = Some (TerminalBlockOf tb)"
  shows "\<exists>tb'. getBlock (closeLastTerminalFrame env s) f = Some (TerminalBlockOf tb')
               \<and> scrollback tb' = scrollback tb"
  using assms
  by (auto simp: closeLastTerminalFrame_def Let_def getBlock_def setBlock_def
        split: option.splits Block.splits)

lemma closeLastTerminalFrame_no_block:
  assumes "getBlock s f = None"
  shows "getBlock (closeLastTerminalFrame env s) f = None"
  using assms
  by (auto simp: closeLastTerminalFrame_def Let_def getBlock_def setBlock_def
        split: option.splits Block.splits)

lemma materializeFrame_result:
  assumes "getBlock s1 viewer = Some (TerminalBlockOf tb)"
  shows "\<exists>s' b. materializeFrame env viewer returnCode s1 = Inr s'
          \<and> blockFrames s' = blockFrames s1 @ [nextFrameRef s1, Suc (nextFrameRef s1)]
          \<and> frameClass (frameHeap s' (nextFrameRef s1)) = DecoratedFrame
          \<and> getBlock s' (nextFrameRef s1) = Some (TerminalBlockOf b)
          \<and> blockReturnCode b = Some (parseReturnCode returnCode)
          \<and> blockCommandLine b = lastCommandLine s1"
proof -
  define s2 where "s2 = closeLastTerminalFrame env s1"
  from closeLastTerminalFrame_terminal_block [OF assms, of env]
  obtain tb2 where tb2: "getBlock s2 viewer = Some (TerminalBlockOf tb2)"
    unfolding s2_def by blast
  have f2: "blockFrames s2 = blockFrames s1" "nextFrameRef s2 = nextFrameRef s1"
     "lastCommandLine s2 = lastCommandLine s1"
    by (simp_all add: s2_def closeLastTerminalFrame_fields)
  show ?thesis
    unfolding materializeFrame_def s2_def [symmetric]
    using tb2 f2
    by (cases "viewer = nextFrameRef s1")
       (auto simp: Let_def newDecoratedFrame_def setBlock_def getBlock_def takeScrollbackFrom_def
          updateTerminalBlock_def appendBlockFrame_def createFramedTerminalBlock_def
          newTerminalBlock_def split: option.splits Block.splits)
qed

lemma viewerHoldsTerminalBlock_iff:
  "viewerHoldsTerminalBlock s \<longleftrightarrow>
     (\<exists>viewer tb. lastCommandTerminalViewer s = Some viewer
        \<and> getBlock s viewer = Some (TerminalBlockOf tb))"
  by (auto simp: viewerHoldsTerminalBlock_def isTerminalBlock_def
           split: option.splits Block.splits)

lemma frameWithoutDecoratedFrame_framed:
  assumes "viewerHoldsTerminalBlock s"
      and "returnCode \<noteq> Some ''0''
           \<or> commandNeedsFrame (regExpTest env) (configDatabase env) (lastCommandLine s)
                (outputLineCount env s) = Inr True"
  shows "\<exists>s' b. frameWithoutDecoratedFrame env returnCode s = Inr s'
          \<and> blockFrames s' = blockFrames s @ [nextFrameRef s, Suc (nextFrameRef s)]
          \<and> frameClass (frameHeap s' (nextFrameRef s)) = DecoratedFrame
          \<and> getBlock s' (nextFrameRef s) = Some (TerminalBlockOf b)
          \<and> blockReturnCode b = Some (parseReturnCode returnCode)
          \<and> blockCommandLine b = lastCommandLine s"
proof -
  from assms(1) obtain viewer tb where v: "lastCommandTerminalViewer s = Some viewer"
    and b: "getBlock s viewer = Some (TerminalBlockOf tb)"
    unfolding viewerHoldsTerminalBlock_iff by blast
  define s1 where "s1 = moveCursorToFreshLine env s"
  have b1: "getBlock s1 viewer = Some (TerminalBlockOf tb)"
    by (simp add: s1_def moveCursorToFreshLine_fields b)
  have f1: "lastCommandTerminalViewer s1 = Some viewer" "lastCommandLine s1 = lastCommandLine s"
    "lastCommandTerminalRow s1 = lastCommandTerminalRow s"
    by (simp_all add: s1_def moveCursorToFreshLine_fields v)
  have n: "outputLineCount env s =
             getScrollbackLength tb - lastCommandTerminalRow s + getCursorRow env (emulator s1)"
    by (simp add: outputLineCount_def v b s1_def)
  have eq: "frameWithoutDecoratedFrame env returnCode s = materializeFrame env viewer returnCode s1"
    unfolding frameWithoutDecoratedFrame_def s1_def [symmetric]
    using assms(2) by (auto simp: Let_def f1 b1 n)
  from materializeFrame_result [OF b1, of env returnCode] show ?thesis
    by (simp add: eq s1_def moveCursorToFreshLine_fields)
qed


text \<open>
  At bracket end with no empty decorated frame found and the viewer holding its terminal
  block, a return code text other than \<^verbatim>\<open>"0"\<close> always makes a frame, whatever the
  configured rules are: \<^verbatim>\<open>#closeLastEmbeddedViewer\<close> returns, a new decorated frame and
  a new spacer frame are appended to \<^verbatim>\<open>#blockFrames\<close>, and the decorated frame holds a
  terminal block with the parsed return code and the last command line. The
  collaborators, the frame rules among them, are arbitrary.
\<close>

lemma failed_command_is_framed_by_live_viewer:
  assumes "findEmptyDecoratedFrame s = Inr None"
      and "viewerHoldsTerminalBlock s"
      and "returnCode \<noteq> Some ''0''"
  shows "\<exists>s' b. closeLastEmbeddedViewer env returnCode s = Inr s'
          \<and> blockFrames s' = blockFrames s @ [nextFrameRef s, Suc (nextFrameRef s)]
          \<and> frameClass (frameHeap s' (nextFrameRef s)) = DecoratedFrame
          \<and> getBlock s' (nextFrameRef s) = Some (TerminalBlockOf b)
          \<and> blockReturnCode b = Some (parseReturnCode returnCode)
          \<and> blockCommandLine b = lastCommandLine s"
  using frameWithoutDecoratedFrame_framed [OF assms(2), of returnCode env] assms(1,3)
  by (simp add: closeLastEmbeddedViewer_def)



lemma inlineCommandTerminal_fields:
  "blockFrames (inlineCommandTerminal outputRows) = [0]"
  "nextFrameRef (inlineCommandTerminal outputRows) = 1"
  "lastCommandTerminalViewer (inlineCommandTerminal outputRows) = Some 0"
  "lastCommandLine (inlineCommandTerminal outputRows) = Some ''ls -la''"
  "lastCommandTerminalRow (inlineCommandTerminal outputRows) = 0"
  "getBlock (inlineCommandTerminal outputRows) 0 =
     Some (TerminalBlockOf \<lparr>scrollback = outputRows, blockCommandLine = None,
                             blockReturnCode = None, hasEmulator = True\<rparr>)"
  by (simp_all add: inlineCommandTerminal_def updateTerminalBlock_def newTerminal_def
        getBlock_def setBlock_def newTerminalBlock_def)

lemma inlineCommandTerminal_ready:
  "findEmptyDecoratedFrame (inlineCommandTerminal outputRows) = Inr None"
  "viewerHoldsTerminalBlock (inlineCommandTerminal outputRows)"
  by (simp_all add: findEmptyDecoratedFrame_def viewerHoldsTerminalBlock_def isTerminalBlock_def
        inlineCommandTerminal_fields)


lemma never_frame_rule_matches:
  "commandLineActionMatches sampleRegExp ''ls -la''
     \<lparr>match = ''ls'', matchType = name, frameRule = never_frame, frameRuleLines = 0\<rparr> = Inr True"
  by (simp add: commandLineActionMatches_def sample_command_parts isWhiteSpace_def)



lemma failed_command_is_framed_by_live_viewer_example:
  "findEmptyDecoratedFrame (inlineCommandTerminal [''a'', ''b'']) = Inr None
   \<and> viewerHoldsTerminalBlock (inlineCommandTerminal [''a'', ''b''])
   \<and> Some ''1'' \<noteq> Some ''0''
   \<and> commandLineActionMatches sampleRegExp ''ls -la''
        \<lparr>match = ''ls'', matchType = name, frameRule = never_frame, frameRuleLines = 0\<rparr> = Inr True
   \<and> \<not> isl (closeLastEmbeddedViewer (plainCollaborators (Some neverFrameRules) None) (Some ''1'')
               (inlineCommandTerminal [''a'', ''b'']))
   \<and> blockFrames (projr (closeLastEmbeddedViewer (plainCollaborators (Some neverFrameRules) None)
                            (Some ''1'') (inlineCommandTerminal [''a'', ''b'']))) = [0, 1, 2]
   \<and> frameClass (frameHeap (projr (closeLastEmbeddedViewer
                            (plainCollaborators (Some neverFrameRules) None)
                            (Some ''1'') (inlineCommandTerminal [''a'', ''b'']))) 1) = DecoratedFrame"
  using failed_command_is_framed_by_live_viewer
          [where s = "inlineCommandTerminal [''a'', ''b'']" and returnCode = "Some ''1''"
             and env = "plainCollaborators (Some neverFrameRules) None"]
  by (auto simp: inlineCommandTerminal_ready inlineCommandTerminal_fields never_frame_rule_matches)



text \<open>
  Claim C3. The claim asks for a frame whenever no empty decorated frame is pending and
  the return code text differs from \<^verbatim>\<open>"0"\<close>. In \<open>nestedShellTerminal\<close> no empty
  decorated frame is pending, but \<^verbatim>\<open>#lastCommandTerminalViewer\<close> is still the spacer
  frame whose block \<^verbatim>\<open>#frameWithExistingDecoratedFrame\<close> moved into the decorated
  frame: it holds no block and is no longer in \<^verbatim>\<open>#blockFrames\<close>. The bracket end
  sequence with the return code \<^verbatim>\<open>"1"\<close> then throws a \<^verbatim>\<open>TypeError\<close> in
  \<^verbatim>\<open>#frameWithoutDecoratedFrame\<close>, where the viewer's block is read, and
  \<^verbatim>\<open>#blockFrames\<close> is what it was: no frame is made for the failed command.
\<close>

theorem failed_command_stale_viewer:
  "findEmptyDecoratedFrame nestedShellTerminal = Inr None
   \<and> blockFrames nestedShellTerminal = [0, 1, 3]
   \<and> lastCommandTerminalViewer nestedShellTerminal = Some 2
   \<and> getBlock nestedShellTerminal 2 = None
   \<and> isl (applicationModeSequence (plainCollaborators (Some sampleRules) None)
             [''abc123'', ''3''] ''1'' nestedShellTerminal)
   \<and> fst (projl (applicationModeSequence (plainCollaborators (Some sampleRules) None)
                    [''abc123'', ''3''] ''1'' nestedShellTerminal)) = TypeError
   \<and> blockFrames (snd (projl (applicationModeSequence (plainCollaborators (Some sampleRules) None)
                                 [''abc123'', ''3''] ''1'' nestedShellTerminal))) = [0, 1, 3]
   \<and> nextFrameRef (snd (projl (applicationModeSequence (plainCollaborators (Some sampleRules) None)
                                  [''abc123'', ''3''] ''1'' nestedShellTerminal)))
       = nextFrameRef nestedShellTerminal"
  by code_simp

subsection \<open>A return code that does not parse\<close>

lemma findEmptyDecoratedFrameLoop_found:
  assumes "findEmptyDecoratedFrameLoop s i = Some d" and "i < length (blockFrames s)"
  shows "d \<in> set (blockFrames s) \<and> frameClass (frameHeap s d) = DecoratedFrame
         \<and> getBlock s d = None"
  using assms
proof (induction i)
  case 0
  then show ?case by simp
next
  case (Suc i)
  show ?case
  proof (cases "frameClass (frameHeap s (blockFrames s ! Suc i)) = DecoratedFrame
                \<and> getBlock s (blockFrames s ! Suc i) = None")
    case True
    with Suc.prems have "d = blockFrames s ! Suc i" by (simp add: Let_def)
    with True Suc.prems(2) show ?thesis by simp
  next
    case False
    with Suc.prems have "findEmptyDecoratedFrameLoop s i = Some d" by (auto simp: Let_def)
    moreover from Suc.prems(2) have "i < length (blockFrames s)" by simp
    ultimately show ?thesis by (rule Suc.IH)
  qed
qed

lemma findEmptyDecoratedFrame_found:
  assumes "findEmptyDecoratedFrame s = Inr (Some d)"
  shows "d \<in> set (blockFrames s) \<and> frameClass (frameHeap s d) = DecoratedFrame
         \<and> getBlock s d = None"
proof -
  from assms have l: "length (blockFrames s) \<noteq> 0"
    and f: "findEmptyDecoratedFrameLoop s (length (blockFrames s) - 1) = Some d"
    by (auto simp: findEmptyDecoratedFrame_def Let_def split: if_splits)
  from l have "length (blockFrames s) - 1 < length (blockFrames s)" by simp
  with f show ?thesis by (rule findEmptyDecoratedFrameLoop_found)
qed

lemma findLastBareTerminalBlockFrameLoop_found:
  assumes "findLastBareTerminalBlockFrameLoop s n = Some r" and "n \<le> length (blockFrames s)"
  shows "r \<in> set (blockFrames s) \<and> frameClass (frameHeap s r) = SpacerFrame
         \<and> isTerminalBlock (getBlock s r)"
  using assms
proof (induction n)
  case 0
  then show ?case by simp
next
  case (Suc i)
  show ?case
  proof (cases "frameClass (frameHeap s (blockFrames s ! i)) = SpacerFrame
                \<and> isTerminalBlock (getBlock s (blockFrames s ! i))")
    case True
    with Suc.prems have "r = blockFrames s ! i" by (simp add: Let_def)
    with True Suc.prems(2) show ?thesis by simp
  next
    case False
    with Suc.prems have "findLastBareTerminalBlockFrameLoop s i = Some r" by (auto simp: Let_def)
    moreover from Suc.prems(2) have "i \<le> length (blockFrames s)" by simp
    ultimately show ?thesis by (rule Suc.IH)
  qed
qed

lemma findLastBareTerminalBlockFrame_found:
  assumes "findLastBareTerminalBlockFrame s = Some r"
  shows "r \<in> set (blockFrames s) \<and> frameClass (frameHeap s r) = SpacerFrame
         \<and> isTerminalBlock (getBlock s r)"
  using assms findLastBareTerminalBlockFrameLoop_found [of s "length (blockFrames s)" r]
  by (simp add: findLastBareTerminalBlockFrame_def)

lemma findIndex_present:
  "r \<in> set xs \<Longrightarrow> 0 \<le> findIndex xs r \<and> findIndex xs r < int (length xs)"
proof (induction xs)
  case Nil
  then show ?case by simp
next
  case (Cons x xs)
  show ?case
  proof (cases "x = r")
    case True
    then show ?thesis by simp
  next
    case False
    with Cons.prems have "r \<in> set xs" by simp
    from Cons.IH [OF this] False show ?thesis by (simp add: Let_def)
  qed
qed

lemma spliceOne_findIndex:
  "r \<in> set xs \<Longrightarrow> spliceOne (findIndex xs r) xs = remove1 r xs"
proof (induction xs)
  case Nil
  then show ?case by simp
next
  case (Cons x xs)
  show ?case
  proof (cases "x = r")
    case True
    then show ?thesis by (simp add: spliceOne_def)
  next
    case False
    with Cons.prems have m: "r \<in> set xs" by simp
    from findIndex_present [OF m] have i: "0 \<le> findIndex xs r" "findIndex xs r < int (length xs)"
      by simp_all
    then have ne: "findIndex xs r \<noteq> -1" by simp
    have "spliceOne (findIndex (x # xs) r) (x # xs) = x # spliceOne (findIndex xs r) xs"
      using False i ne by (simp add: spliceOne_def Let_def nat_add_distrib min_def)
    with Cons.IH [OF m] False show ?thesis by simp
  qed
qed

lemma frameWithExistingDecoratedFrame_result:
  assumes r: "findLastBareTerminalBlockFrame s = Some r"
      and d: "d \<in> set (blockFrames s)" "frameClass (frameHeap s d) = DecoratedFrame"
             "d < nextFrameRef s"
  shows "\<exists>s' b. frameWithExistingDecoratedFrame env d returnCode s = Inr s'
          \<and> d \<in> set (blockFrames s')
          \<and> frameClass (frameHeap s' d) = DecoratedFrame
          \<and> getBlock s' d = Some (TerminalBlockOf b)
          \<and> blockReturnCode b = Some (parseReturnCode returnCode)
          \<and> blockCommandLine b = lastCommandLine s"
proof -
  from findLastBareTerminalBlockFrame_found [OF r]
  have rin: "r \<in> set (blockFrames s)" and rc: "frameClass (frameHeap s r) = SpacerFrame"
    and rb: "isTerminalBlock (getBlock s r)" by simp_all
  from rc d(2) have ne: "r \<noteq> d" by auto
  from rb obtain tb where tb: "getBlock s r = Some (TerminalBlockOf tb)"
    by (auto simp: isTerminalBlock_def split: option.splits Block.splits)
  define s1 where "s1 = closeLastTerminalFrame env s"
  from closeLastTerminalFrame_terminal_block [OF tb, of env]
  obtain tb1 where tb1: "getBlock s1 r = Some (TerminalBlockOf tb1)"
    unfolding s1_def by blast
  have f1: "blockFrames s1 = blockFrames s" "nextFrameRef s1 = nextFrameRef s"
     "lastCommandLine s1 = lastCommandLine s" "frameClass (frameHeap s1 d) = DecoratedFrame"
    by (simp_all add: s1_def closeLastTerminalFrame_fields d)
  have din: "d \<in> set (remove1 r (blockFrames s))" using d(1) ne by simp
  have sp: "spliceOne (findIndex (blockFrames s) r) (blockFrames s) = remove1 r (blockFrames s)"
    using rin by (rule spliceOne_findIndex)
  show ?thesis
    unfolding frameWithExistingDecoratedFrame_def s1_def [symmetric]
    using r tb1 f1 din ne d(3) sp
    by (auto simp: Let_def setBlock_def getBlock_def createFramedTerminalBlock_def
          appendBlockFrame_def)
qed


lemma parseReturnCode_zero: "parseReturnCode (Some ''0'') = Num 0"
  by (simp add: parseReturnCode_def parseInt10_def isWhiteSpace_def isDigit_def
        digitsValue_def digitValue_def roundToDouble_def)

lemma parseReturnCode_abc: "parseReturnCode (Some ''abc'') = NaN"
  by (simp add: parseReturnCode_def parseInt10_def isWhiteSpace_def isDigit_def)

text \<open>
  Claim C4, as amended. Let the return code text be one that \<^verbatim>\<open>Number.parseInt\<close> gives
  \<open>NaN\<close> for, in a state whose frames exist and which has what either path of
  \<^verbatim>\<open>#closeLastEmbeddedViewer\<close> reads: a bare terminal block frame when an empty
  decorated frame is found, the viewer's terminal block when none is. Then the call
  returns, and the decorated frame (the one found, or the new one) is in
  \<^verbatim>\<open>#blockFrames\<close> and holds a terminal block with the last command line set and
  with \<open>NaN\<close> as its return code: no other code is put in its place.
\<close>

theorem unparsable_return_code:
  assumes "parseReturnCode returnCode = NaN"
      and "framesAllocated s"
      and "findEmptyDecoratedFrame s = Inr pending"
      and "pending \<noteq> None \<longrightarrow> findLastBareTerminalBlockFrame s \<noteq> None"
      and "pending = None \<longrightarrow> viewerHoldsTerminalBlock s"
  shows "\<exists>s' b. closeLastEmbeddedViewer env returnCode s = Inr s'
          \<and> (case pending of Some d \<Rightarrow> d | None \<Rightarrow> nextFrameRef s) \<in> set (blockFrames s')
          \<and> frameClass (frameHeap s' (case pending of Some d \<Rightarrow> d | None \<Rightarrow> nextFrameRef s))
                = DecoratedFrame
          \<and> getBlock s' (case pending of Some d \<Rightarrow> d | None \<Rightarrow> nextFrameRef s)
                = Some (TerminalBlockOf b)
          \<and> blockCommandLine b = lastCommandLine s
          \<and> blockReturnCode b = Some NaN"
proof (cases pending)
  case None
  from assms(1) have nz: "returnCode \<noteq> Some ''0''" using parseReturnCode_zero by auto
  from None assms(5) have v: "viewerHoldsTerminalBlock s" by simp
  from frameWithoutDecoratedFrame_framed [OF v, of returnCode env] nz
  obtain s' b where "frameWithoutDecoratedFrame env returnCode s = Inr s'"
     "blockFrames s' = blockFrames s @ [nextFrameRef s, Suc (nextFrameRef s)]"
     "frameClass (frameHeap s' (nextFrameRef s)) = DecoratedFrame"
     "getBlock s' (nextFrameRef s) = Some (TerminalBlockOf b)"
     "blockReturnCode b = Some (parseReturnCode returnCode)"
     "blockCommandLine b = lastCommandLine s" by blast
  with None assms(1,3) show ?thesis by (simp add: closeLastEmbeddedViewer_def)
next
  case (Some d)
  with assms(4) obtain r where r: "findLastBareTerminalBlockFrame s = Some r" by auto
  from Some assms(3) have fd: "findEmptyDecoratedFrame s = Inr (Some d)" by simp
  from findEmptyDecoratedFrame_found [OF fd]
  have din: "d \<in> set (blockFrames s)" and dc: "frameClass (frameHeap s d) = DecoratedFrame"
    by simp_all
  from assms(2) din have dl: "d < nextFrameRef s"
    by (simp add: framesAllocated_def list_all_iff)
  from frameWithExistingDecoratedFrame_result [OF r din dc dl, of env returnCode]
  obtain s' b where "frameWithExistingDecoratedFrame env d returnCode s = Inr s'"
     "d \<in> set (blockFrames s')"
     "frameClass (frameHeap s' d) = DecoratedFrame"
     "getBlock s' d = Some (TerminalBlockOf b)"
     "blockReturnCode b = Some (parseReturnCode returnCode)"
     "blockCommandLine b = lastCommandLine s" by blast
  with Some fd assms(1) show ?thesis by (simp add: closeLastEmbeddedViewer_def)
qed

lemma framedCommandTerminal_eq:
  "handleApplicationModeBracketStart
              (plainCollaborators (Some (generalRule always_frame 0)) None)
              (bracketStartTerminal None ''ls -la'') = Inr framedCommandTerminal"
  by (simp add: framedCommandTerminal_def handleApplicationModeBracketStart_def
        cleanCommandLine_def bracketStartTerminal_def commandNeedsFrame_def
        plainCollaborators_def generalRule_def frameRuleDecision_def trim_def isWhiteSpace_def)

lemma framedCommandTerminal_fields:
  "blockFrames framedCommandTerminal = [0, 1, 2]"
  "nextFrameRef framedCommandTerminal = 3"
  "lastCommandLine framedCommandTerminal = Some ''ls -la''"
  "frameClass (frameHeap framedCommandTerminal 0) = SpacerFrame"
  "frameClass (frameHeap framedCommandTerminal 1) = DecoratedFrame"
  "frameClass (frameHeap framedCommandTerminal 2) = SpacerFrame"
  "getBlock framedCommandTerminal 1 = None"
  "frameClass (frameHeap framedCommandTerminal (Suc 0)) = DecoratedFrame"
  "getBlock framedCommandTerminal (Suc 0) = None"
  "getBlock framedCommandTerminal 2 = Some (TerminalBlockOf (newTerminalBlock True))"
  by (simp_all add: framedCommandTerminal_def handleApplicationModeBracketStart_def
        cleanCommandLine_def bracketStartTerminal_def commandNeedsFrame_def
        plainCollaborators_def generalRule_def frameRuleDecision_def trim_def isWhiteSpace_def
        bracketStartOpenFrame_def closeLastTerminalFrame_def newDecoratedFrame_def
        appendBlockFrame_def createFramedTerminalBlock_def newTerminal_def getBlock_def
        setBlock_def Let_def setList_def)

lemma framedCommandTerminal_ready:
  "framesAllocated framedCommandTerminal"
  "findEmptyDecoratedFrame framedCommandTerminal = Inr (Some 1)"
  "findLastBareTerminalBlockFrame framedCommandTerminal = Some 2"
  by (simp_all add: framesAllocated_def findEmptyDecoratedFrame_def
        findLastBareTerminalBlockFrame_def framedCommandTerminal_fields isTerminalBlock_def
        newTerminalBlock_def Let_def)

theorem unparsable_return_code_witness:
  "parseReturnCode (Some ''abc'') = NaN
   \<and> framesAllocated framedCommandTerminal
   \<and> findEmptyDecoratedFrame framedCommandTerminal = Inr (Some 1)
   \<and> findLastBareTerminalBlockFrame framedCommandTerminal \<noteq> None
   \<and> \<not> isl (closeLastEmbeddedViewer (plainCollaborators None None) (Some ''abc'')
               framedCommandTerminal)
   \<and> 1 \<in> set (blockFrames (projr (closeLastEmbeddedViewer (plainCollaborators None None)
                                    (Some ''abc'') framedCommandTerminal)))
   \<and> framesAllocated (inlineCommandTerminal [''a''])
   \<and> findEmptyDecoratedFrame (inlineCommandTerminal [''a'']) = Inr None
   \<and> viewerHoldsTerminalBlock (inlineCommandTerminal [''a''])
   \<and> \<not> isl (closeLastEmbeddedViewer (plainCollaborators None None) (Some ''abc'')
               (inlineCommandTerminal [''a'']))
   \<and> 1 \<in> set (blockFrames (projr (closeLastEmbeddedViewer (plainCollaborators None None)
                                    (Some ''abc'') (inlineCommandTerminal [''a'']))))"
proof -
  have al: "framesAllocated (inlineCommandTerminal [''a''])"
    by (simp add: framesAllocated_def inlineCommandTerminal_fields)
  from unparsable_return_code
         [where returnCode = "Some ''abc''" and s = framedCommandTerminal
            and pending = "Some 1" and env = "plainCollaborators None None"]
  have a: "\<not> isl (closeLastEmbeddedViewer (plainCollaborators None None) (Some ''abc'')
               framedCommandTerminal)
        \<and> 1 \<in> set (blockFrames (projr (closeLastEmbeddedViewer (plainCollaborators None None)
                                    (Some ''abc'') framedCommandTerminal)))"
    by (auto simp: parseReturnCode_abc framedCommandTerminal_ready)
  from unparsable_return_code
         [where returnCode = "Some ''abc''" and s = "inlineCommandTerminal [''a'']"
            and pending = None and env = "plainCollaborators None None"]
  have b: "\<not> isl (closeLastEmbeddedViewer (plainCollaborators None None) (Some ''abc'')
               (inlineCommandTerminal [''a'']))
        \<and> 1 \<in> set (blockFrames (projr (closeLastEmbeddedViewer (plainCollaborators None None)
                                    (Some ''abc'') (inlineCommandTerminal [''a'']))))"
    by (auto simp: parseReturnCode_abc inlineCommandTerminal_ready al inlineCommandTerminal_fields)
  from a b al show ?thesis
    by (simp add: parseReturnCode_abc framedCommandTerminal_ready inlineCommandTerminal_ready)
qed

text \<open>
  Claim C4 as first stated has the recorded exit code fall back to a default code. For
  the return code text \<^verbatim>\<open>"abc"\<close> the frame is made and what its block records is
  \<open>NaN\<close>.
\<close>

theorem unparsable_return_code_counterexample:
  "getBlock (projr (closeLastEmbeddedViewer (plainCollaborators None None) (Some ''abc'')
                      (inlineCommandTerminal [''a'']))) 1
     = Some (TerminalBlockOf \<lparr>scrollback = [''a''], blockCommandLine = Some ''ls -la'',
                               blockReturnCode = Some NaN, hasEmulator = False\<rparr>)
   \<and> \<not> isl (closeLastEmbeddedViewer (plainCollaborators None None) (Some ''abc'')
                      (inlineCommandTerminal [''a'']))"
proof -
  have e: "closeLastEmbeddedViewer (plainCollaborators None None) (Some ''abc'')
             (inlineCommandTerminal [''a''])
           = frameWithoutDecoratedFrame (plainCollaborators None None) (Some ''abc'')
               (inlineCommandTerminal [''a''])"
    by (simp add: closeLastEmbeddedViewer_def inlineCommandTerminal_ready)
  show ?thesis
    unfolding e
    by (simp add: frameWithoutDecoratedFrame_def moveCursorToFreshLine_def plainCollaborators_def
          Let_def materializeFrame_def closeLastTerminalFrame_def
          newDecoratedFrame_def setBlock_def getBlock_def takeScrollbackFrom_def
          updateTerminalBlock_def appendBlockFrame_def createFramedTerminalBlock_def
          newTerminalBlock_def parseReturnCode_abc inlineCommandTerminal_def newTerminal_def)
qed

subsection \<open>Enforcing the scrollback cap\<close>

lemma skipVisibleLoop_step:
  "blockIndex \<ge> 0 \<Longrightarrow> currentHeight < maxScrollbackLines \<Longrightarrow>
     skipVisibleLoop s maxScrollbackLines blockIndex currentHeight =
       skipVisibleLoop s maxScrollbackLines (blockIndex - 1)
         (currentHeight + frameRows s (blockFrames s ! nat blockIndex))"
  by (subst skipVisibleLoop.simps)
     (simp add: frameRows_def split: option.splits Block.splits)

lemma skipVisibleLoop_stop:
  "\<not> (blockIndex \<ge> 0 \<and> currentHeight < maxScrollbackLines) \<Longrightarrow>
     skipVisibleLoop s maxScrollbackLines blockIndex currentHeight = (blockIndex, currentHeight)"
  by (subst skipVisibleLoop.simps) auto

lemma removeOlderLoop_step:
  "blockIndex \<ge> 0 \<Longrightarrow>
     removeOlderLoop s blockIndex =
       (case blockFrames s of
          [] \<Rightarrow> Inl (TypeError, s)
        | targetFrame # _ \<Rightarrow>
            (case removeFrameFromScrollArea targetFrame s of
               Inl es \<Rightarrow> Inl es
             | Inr s1 \<Rightarrow> removeOlderLoop s1 (blockIndex - 1)))"
  by (subst removeOlderLoop.simps) simp

lemma removeOlderLoop_stop:
  "blockIndex < 0 \<Longrightarrow> removeOlderLoop s blockIndex = Inr s"
  by (subst removeOlderLoop.simps) simp

lemmas frame_eval =
  framedCommandTerminal_def handleApplicationModeBracketStart_def
  cleanCommandLine_def bracketStartTerminal_def commandNeedsFrame_def
  plainCollaborators_def generalRule_def frameRuleDecision_def trim_def isWhiteSpace_def
  bracketStartOpenFrame_def closeLastTerminalFrame_def newDecoratedFrame_def
  appendBlockFrame_def createFramedTerminalBlock_def newTerminal_def getBlock_def
  setBlock_def Let_def setList_def updateTerminalBlock_def newTerminalBlock_def

lemma nestedFramedTerminal_fields:
  "blockFrames nestedFramedTerminal = [0, 1, 2, 3, 4]"
  "lastCommandTerminalRow nestedFramedTerminal = -1"
  "frameRows nestedFramedTerminal 0 = 0"
  "frameRows nestedFramedTerminal 1 = 0"
  "frameRows nestedFramedTerminal 2 = 5"
  "frameRows nestedFramedTerminal 3 = 0"
  "frameRows nestedFramedTerminal 4 = 4"
  "getBlock nestedFramedTerminal 1 = None"
  "getBlock nestedFramedTerminal 3 = None"
  "getBlock nestedFramedTerminal 0 =
     Some (TerminalBlockOf \<lparr>scrollback = [], blockCommandLine = None,
                             blockReturnCode = None, hasEmulator = False\<rparr>)"
  "getBlock nestedFramedTerminal 4 =
     Some (TerminalBlockOf \<lparr>scrollback = [''r6'', ''r7'', ''r8'', ''r9''], blockCommandLine = None,
                             blockReturnCode = None, hasEmulator = True\<rparr>)"
  by (simp_all add: nestedFramedTerminal_def frameRows_def getScrollbackLength_def frame_eval)


lemma nestedFramedTerminal_skip:
  "skipVisibleLoop nestedFramedTerminal 2 4 (- 1) = (3, 3)"
  by (simp add: skipVisibleLoop_step skipVisibleLoop_stop nestedFramedTerminal_fields)

lemma nestedFramedTerminal_trimmed:
  "enforceScrollbackLinesSize (Some \<lparr>rows = 1\<rparr>) 2 nestedFramedTerminal
     = removeOlderLoop (updateTerminalBlock 4 (deleteTopLines 1) nestedFramedTerminal) 3"
  by (simp add: enforceScrollbackLinesSize_def nestedFramedTerminal_skip
        nestedFramedTerminal_fields Let_def updateTerminalBlock_def setBlock_def)

lemma getBlock_blockFrames_update:
  "getBlock (s\<lparr>blockFrames := frames\<rparr>) frame = getBlock s frame"
  by (simp add: getBlock_def)

lemma frameRows_blockFrames_update:
  "frameRows (s\<lparr>blockFrames := frames\<rparr>) frame = frameRows s frame"
  by (simp add: frameRows_def getBlock_def)

lemma trimmed_fields:
  "blockFrames (updateTerminalBlock 4 (deleteTopLines 1) nestedFramedTerminal) = [0, 1, 2, 3, 4]"
  "getBlock (updateTerminalBlock 4 (deleteTopLines 1) nestedFramedTerminal) 0 \<noteq> None"
  "getBlock (updateTerminalBlock 4 (deleteTopLines 1) nestedFramedTerminal) 1 = None"
  "getBlock (updateTerminalBlock 4 (deleteTopLines 1) nestedFramedTerminal) (Suc 0) = None"
  "frameRows (updateTerminalBlock 4 (deleteTopLines 1) nestedFramedTerminal) 1 = 0"
  "frameRows (updateTerminalBlock 4 (deleteTopLines 1) nestedFramedTerminal) (Suc 0) = 0"
  "frameRows (updateTerminalBlock 4 (deleteTopLines 1) nestedFramedTerminal) 2 = 5"
  "frameRows (updateTerminalBlock 4 (deleteTopLines 1) nestedFramedTerminal) 3 = 0"
  "frameRows (updateTerminalBlock 4 (deleteTopLines 1) nestedFramedTerminal) 4 = 3"
  using nestedFramedTerminal_fields
  by (simp_all add: updateTerminalBlock_def setBlock_def getBlock_def frameRows_def
        deleteTopLines_def getScrollbackLength_def)

text \<open>
  Claim C8. The claim asks that after enforcement the rows retained outside the viewport
  are at most \<^verbatim>\<open>maxScrollbackLines\<close> and that every block older than the one that
  straddles the cap is removed. With a viewport of one row and a cap of two rows, on
  the terminal with two opened frames, the newest block is trimmed from four rows to
  three and the oldest frame is removed; removing the next one, the decorated frame
  still waiting for its block, throws at \<^verbatim>\<open>frame.getBlock().setParent(null)\<close>. The
  five rows of the older block stay: eight rows are retained, seven outside the
  viewport.
\<close>

theorem enforceScrollbackLinesSize_stops_at_empty_frame:
  "enforceScrollbackLinesSize (Some \<lparr>rows = 1\<rparr>) 2 nestedFramedTerminal
     = Inl (TypeError,
            (updateTerminalBlock 4 (deleteTopLines 1) nestedFramedTerminal)
              \<lparr>blockFrames := [1, 2, 3, 4]\<rparr>)
   \<and> retainedRows ((updateTerminalBlock 4 (deleteTopLines 1) nestedFramedTerminal)
                      \<lparr>blockFrames := [1, 2, 3, 4]\<rparr>) - 1 = 7"
proof -
  have r: "removeOlderLoop (updateTerminalBlock 4 (deleteTopLines 1) nestedFramedTerminal) 3
             = Inl (TypeError,
                    (updateTerminalBlock 4 (deleteTopLines 1) nestedFramedTerminal)
                      \<lparr>blockFrames := [1, 2, 3, 4]\<rparr>)"
    by (simp add: removeOlderLoop_step removeFrameFromScrollArea_def trimmed_fields
          spliceOne_def getBlock_blockFrames_update)
  have n: "retainedRows ((updateTerminalBlock 4 (deleteTopLines 1) nestedFramedTerminal)
                      \<lparr>blockFrames := [1, 2, 3, 4]\<rparr>) = 8"
    by (simp add: retainedRows_def frameRows_blockFrames_update trimmed_fields)
  from r n show ?thesis by (simp add: nestedFramedTerminal_trimmed)
qed

subsection \<open>The cap when every frame holds a block\<close>

lemma skipVisibleLoop_result:
  assumes "skipVisibleLoop s m i h = (j, h')" and "-1 \<le> i" and "i < int (length (blockFrames s))"
  shows "-1 \<le> j \<and> j \<le> i
       \<and> h' = h + sum_list (map (frameRows s) (take (nat (i - j)) (drop (nat (j + 1)) (blockFrames s))))
       \<and> (0 \<le> j \<longrightarrow> m \<le> h')
       \<and> (j < i \<longrightarrow> h' - frameRows s (blockFrames s ! nat (j + 1)) < m)"
  using assms
proof (induction s m i h rule: skipVisibleLoop.induct)
  case (1 s m i h)
  show ?case
  proof (cases "i \<ge> 0 \<and> h < m")
    case False
    with "1.prems"(1) have "j = i" "h' = h" by (simp_all add: skipVisibleLoop_stop)
    with False "1.prems"(2) show ?thesis by auto
  next
    case True
    define r where "r = frameRows s (blockFrames s ! nat i)"
    from True "1.prems"(1) have rec: "skipVisibleLoop s m (i - 1) (h + r) = (j, h')"
      by (simp add: skipVisibleLoop_step r_def)
    have pre2: "-1 \<le> i - 1" using True by simp
    have pre3: "i - 1 < int (length (blockFrames s))" using "1.prems"(3) by simp
    have ih: "-1 \<le> j \<and> j \<le> i - 1
       \<and> h' = (h + r) + sum_list (map (frameRows s)
                    (take (nat (i - 1 - j)) (drop (nat (j + 1)) (blockFrames s))))
       \<and> (0 \<le> j \<longrightarrow> m \<le> h')
       \<and> (j < i - 1 \<longrightarrow> h' - frameRows s (blockFrames s ! nat (j + 1)) < m)"
    proof (cases "getBlock s (blockFrames s ! nat i)")
      case None
      then have r0: "r = 0" by (simp add: r_def frameRows_def)
      from rec have rec': "skipVisibleLoop s m (i - 1) h = (j, h')" by (simp add: r0)
      show ?thesis using "1.IH"(1) [OF True None rec' pre2 pre3] unfolding r0 by auto
    next
      case (Some b)
      show ?thesis
      proof (cases b)
        case (TerminalBlockOf tb)
        with Some have r1: "r = getScrollbackLength tb" by (simp add: r_def frameRows_def)
        from rec have rec': "skipVisibleLoop s m (i - 1) (h + getScrollbackLength tb) = (j, h')"
          by (simp add: r1)
        show ?thesis using "1.IH"(2) [OF True Some TerminalBlockOf rec' pre2 pre3]
          unfolding r1 by auto
      next
        case ExtensionBlock
        with Some have r0: "r = 0" by (simp add: r_def frameRows_def)
        from rec have rec': "skipVisibleLoop s m (i - 1) h = (j, h')" by (simp add: r0)
        show ?thesis using "1.IH"(3) [OF True Some ExtensionBlock rec' pre2 pre3]
          unfolding r0 by auto
      qed
    qed
    then have j: "-1 \<le> j" "j \<le> i - 1" and hj: "0 \<le> j \<longrightarrow> m \<le> h'"
      and h'eq: "h' = (h + r) + sum_list (map (frameRows s)
                    (take (nat (i - 1 - j)) (drop (nat (j + 1)) (blockFrames s))))"
      and prev: "j < i - 1 \<longrightarrow> h' - frameRows s (blockFrames s ! nat (j + 1)) < m"
      by blast+
    let ?xs = "drop (nat (j + 1)) (blockFrames s)"
    have len: "nat (i - 1 - j) < length ?xs" using j True "1.prems"(3) by simp
    have nth: "?xs ! nat (i - 1 - j) = blockFrames s ! nat i"
    proof -
      have "nat (j + 1) + nat (i - 1 - j) = nat i" using j True by simp
      then show ?thesis using "1.prems"(3) True by (simp add: nth_drop)
    qed
    have tk: "take (nat (i - j)) ?xs = take (nat (i - 1 - j)) ?xs @ [blockFrames s ! nat i]"
    proof -
      have "nat (i - j) = Suc (nat (i - 1 - j))" using j by simp
      then show ?thesis using len nth by (simp add: take_Suc_conv_app_nth)
    qed
    have sum: "h' = h + sum_list (map (frameRows s) (take (nat (i - j)) ?xs))"
      by (simp add: tk h'eq r_def)
    have last: "j < i \<longrightarrow> h' - frameRows s (blockFrames s ! nat (j + 1)) < m"
    proof (cases "j < i - 1")
      case True
      with prev show ?thesis by simp
    next
      case False
      with j have ji: "j = i - 1" by simp
      then have "h' = h + r" using h'eq by simp
      with ji True show ?thesis by (simp add: r_def)
    qed
    from j hj sum last show ?thesis by simp
  qed
qed


lemma removeFrameFromScrollArea_head:
  assumes "blockFrames s = x # xs" and "getBlock s x \<noteq> None"
  shows "removeFrameFromScrollArea x s = Inr (s\<lparr>blockFrames := xs\<rparr>)"
  using assms by (simp add: removeFrameFromScrollArea_def spliceOne_def)

lemma removeOlderLoop_all:
  assumes "n = nat (i + 1)" and "-1 \<le> i" and "i + 1 \<le> int (length (blockFrames s))"
      and "list_all (\<lambda>f. getBlock s f \<noteq> None) (take n (blockFrames s))"
  shows "removeOlderLoop s i = Inr (s\<lparr>blockFrames := drop n (blockFrames s)\<rparr>)"
  using assms
proof (induction n arbitrary: s i)
  case 0
  then have "i = -1" by simp
  then show ?case by (simp add: removeOlderLoop_stop)
next
  case (Suc n)
  from Suc.prems(1) have i0: "0 \<le> i" and ni: "n = nat ((i - 1) + 1)" by simp_all
  from Suc.prems(3) i0 obtain x xs where bf: "blockFrames s = x # xs"
    by (cases "blockFrames s") simp_all
  from Suc.prems(4) bf have hx: "getBlock s x \<noteq> None"
    and rest: "list_all (\<lambda>f. getBlock s f \<noteq> None) (take n xs)" by simp_all
  define s1 where "s1 = s\<lparr>blockFrames := xs\<rparr>"
  have rm: "removeFrameFromScrollArea x s = Inr s1"
    unfolding s1_def using bf hx by (rule removeFrameFromScrollArea_head)
  have b1: "blockFrames s1 = xs" by (simp add: s1_def)
  have g1: "\<And>f. getBlock s1 f = getBlock s f" by (simp add: s1_def getBlock_def)
  have p2: "-1 \<le> i - 1" using i0 by simp
  have p3: "(i - 1) + 1 \<le> int (length (blockFrames s1))" using Suc.prems(3) bf b1 by simp
  have p4: "list_all (\<lambda>f. getBlock s1 f \<noteq> None) (take n (blockFrames s1))"
    using rest by (simp add: b1 g1)
  have "removeOlderLoop s i = removeOlderLoop s1 (i - 1)"
    using i0 bf rm by (simp add: removeOlderLoop_step)
  also have "\<dots> = Inr (s1\<lparr>blockFrames := drop n (blockFrames s1)\<rparr>)"
    using ni p2 p3 p4 by (rule Suc.IH)
  also have "s1\<lparr>blockFrames := drop n (blockFrames s1)\<rparr> = s\<lparr>blockFrames := drop (Suc n) (blockFrames s)\<rparr>"
    by (simp add: s1_def bf)
  finally show ?case .
qed

lemma frameRows_positive:
  assumes "0 < frameRows s f"
  shows "\<exists>tb. getBlock s f = Some (TerminalBlockOf tb) \<and> frameRows s f = getScrollbackLength tb"
  using assms by (auto simp: frameRows_def split: option.splits Block.splits)

lemma frameRows_setBlock_other:
  "f \<notin> set xs \<Longrightarrow> frameHeap s1 = frameHeap (setBlock f b s)
     \<Longrightarrow> map (frameRows s1) xs = map (frameRows s) xs"
  by (induction xs) (auto simp: frameRows_def getBlock_def setBlock_def)

lemma enforceScrollbackLinesSize_trims:
  assumes "skipVisibleLoop s m (int (length (blockFrames s)) - 1) (- rows sz) = (j, h')"
      and "m \<le> h'" and "0 \<le> j + 1" and "j + 1 < int (length (blockFrames s))"
      and "getBlock s (blockFrames s ! nat (j + 1)) = Some (TerminalBlockOf tb)"
  shows "\<exists>s1. enforceScrollbackLinesSize (Some sz) m s = removeOlderLoop s1 j
           \<and> blockFrames s1 = blockFrames s
           \<and> frameHeap s1 = frameHeap (setBlock (blockFrames s ! nat (j + 1))
                 (Some (TerminalBlockOf (deleteTopLines (h' - m) tb))) s)"
  using assms
  by (auto simp: enforceScrollbackLinesSize_def Let_def setBlock_def)


lemma nth_not_in_later:
  assumes "distinct xs" and "k < length xs"
  shows "xs ! k \<notin> set (drop (Suc k) xs)"
proof -
  from assms(2) have "xs = take k xs @ xs ! k # drop (Suc k) xs" by (rule id_take_nth_drop)
  with assms(1) have "distinct (take k xs @ xs ! k # drop (Suc k) xs)" by simp
  then show ?thesis by simp
qed

text \<open>
  What the enforcement does when nothing makes it throw: the frames of
  \<^verbatim>\<open>#blockFrames\<close> are distinct objects, each holds a block, and the cap is above
  minus the viewport's rows. Then it returns, a front part of \<^verbatim>\<open>#blockFrames\<close> is
  removed, the rows retained outside the viewport are at most the cap, and they are
  exactly the cap when they were at or above it before.
\<close>

lemma enforceScrollbackLinesSize_bound:
  assumes dist: "distinct (blockFrames s)"
      and blocks: "list_all (\<lambda>f. getBlock s f \<noteq> None) (blockFrames s)"
      and vp: "- rows sz < m"
  shows "\<exists>s' k. enforceScrollbackLinesSize (Some sz) m s = Inr s'
          \<and> blockFrames s' = drop k (blockFrames s)
          \<and> retainedRows s' - rows sz \<le> m
          \<and> (m \<le> retainedRows s - rows sz \<longrightarrow> retainedRows s' - rows sz = m)"
proof -
  define bfs where "bfs = blockFrames s"
  define n where "n = int (length bfs)"
  obtain j h' where sk: "skipVisibleLoop s m (int (length (blockFrames s)) - 1) (- rows sz) = (j, h')"
    by (cases "skipVisibleLoop s m (int (length (blockFrames s)) - 1) (- rows sz)") blast
  have "-1 \<le> int (length (blockFrames s)) - 1" by simp
  moreover have "int (length (blockFrames s)) - 1 < int (length (blockFrames s))" by simp
  ultimately have res: "-1 \<le> j \<and> j \<le> int (length (blockFrames s)) - 1
       \<and> h' = - rows sz + sum_list (map (frameRows s)
                  (take (nat (int (length (blockFrames s)) - 1 - j))
                     (drop (nat (j + 1)) (blockFrames s))))
       \<and> (0 \<le> j \<longrightarrow> m \<le> h')
       \<and> (j < int (length (blockFrames s)) - 1
            \<longrightarrow> h' - frameRows s (blockFrames s ! nat (j + 1)) < m)"
    using skipVisibleLoop_result [OF sk] by blast
  then have j: "-1 \<le> j" "j \<le> n - 1"
    and ge: "0 \<le> j \<longrightarrow> m \<le> h'"
    and prev: "j < n - 1 \<longrightarrow> h' - frameRows s (bfs ! nat (j + 1)) < m"
    and h0: "h' = - rows sz + sum_list (map (frameRows s)
                  (take (nat (n - 1 - j)) (drop (nat (j + 1)) bfs)))"
    unfolding bfs_def n_def by blast+
  have "length (drop (nat (j + 1)) bfs) = nat (n - 1 - j)" using j by (simp add: n_def)
  then have "take (nat (n - 1 - j)) (drop (nat (j + 1)) bfs) = drop (nat (j + 1)) bfs" by simp
  with h0 have h'eq: "h' = - rows sz + sum_list (map (frameRows s) (drop (nat (j + 1)) bfs))"
    by simp
  show ?thesis
  proof (cases "h' < m")
    case True
    then have e: "enforceScrollbackLinesSize (Some sz) m s = Inr s"
      by (simp add: enforceScrollbackLinesSize_def sk)
    from True ge have "j = -1" using j by auto
    with h'eq have "h' = retainedRows s - rows sz" by (simp add: retainedRows_def bfs_def)
    with True e show ?thesis by (intro exI [of _ s] exI [of _ 0]) simp
  next
    case False
    then have mh: "m \<le> h'" by simp
    have jn: "j < n - 1"
    proof (rule ccontr)
      assume "\<not> j < n - 1"
      with j have "j = n - 1" by simp
      then have "drop (nat (j + 1)) bfs = []" by (simp add: n_def)
      with h'eq have "h' = - rows sz" by simp
      with vp mh show False by simp
    qed
    define k where "k = nat (j + 1)"
    define frame where "frame = bfs ! k"
    have kn: "k < length bfs" using j jn by (simp add: k_def n_def)
    from prev jn have pr: "h' - frameRows s frame < m" by (simp add: frame_def k_def)
    with mh have "0 < frameRows s frame" by simp
    from frameRows_positive [OF this]
    obtain tb where tb: "getBlock s frame = Some (TerminalBlockOf tb)"
      and rk: "frameRows s frame = getScrollbackLength tb" by blast
    have a3: "0 \<le> j + 1" using j by simp
    have a4: "j + 1 < int (length (blockFrames s))" using jn by (simp add: n_def bfs_def)
    have a5: "getBlock s (blockFrames s ! nat (j + 1)) = Some (TerminalBlockOf tb)"
      using tb by (simp add: frame_def k_def bfs_def)
    from enforceScrollbackLinesSize_trims [OF sk mh a3 a4 a5]
    obtain s1 where e1: "enforceScrollbackLinesSize (Some sz) m s = removeOlderLoop s1 j"
      and b1: "blockFrames s1 = bfs"
      and hp: "frameHeap s1 = frameHeap (setBlock frame
                 (Some (TerminalBlockOf (deleteTopLines (h' - m) tb))) s)"
      unfolding bfs_def frame_def k_def by blast
    have g1: "\<And>f. getBlock s f \<noteq> None \<Longrightarrow> getBlock s1 f \<noteq> None"
      by (simp add: getBlock_def hp setBlock_def)
    from blocks have "\<And>f. f \<in> set bfs \<Longrightarrow> getBlock s f \<noteq> None"
      unfolding bfs_def list_all_iff by blast
    then have "\<And>f. f \<in> set (take k bfs) \<Longrightarrow> getBlock s1 f \<noteq> None"
      using g1 by (meson in_set_takeD)
    then have p4: "list_all (\<lambda>f. getBlock s1 f \<noteq> None) (take k (blockFrames s1))"
      unfolding list_all_iff b1 by blast
    have p3: "j + 1 \<le> int (length (blockFrames s1))" using a4 by (simp add: b1 bfs_def)
    from removeOlderLoop_all [OF k_def j(1) p3 p4]
    have e2: "removeOlderLoop s1 j = Inr (s1\<lparr>blockFrames := drop k bfs\<rparr>)" by (simp add: b1)
    define s' where "s' = s1\<lparr>blockFrames := drop k bfs\<rparr>"
    have dk: "drop k bfs = frame # drop (Suc k) bfs"
      unfolding frame_def using kn by (simp add: Cons_nth_drop_Suc)
    have notin: "frame \<notin> set (drop (Suc k) bfs)"
      unfolding frame_def using dist kn by (simp add: nth_not_in_later bfs_def)
    have other: "map (frameRows s1) (drop (Suc k) bfs) = map (frameRows s) (drop (Suc k) bfs)"
      using notin hp by (rule frameRows_setBlock_other)
    have lc: "0 \<le> h' - m" using mh by simp
    have own: "frameRows s1 frame = frameRows s frame - (h' - m)"
      using lc pr rk
      by (simp add: frameRows_def getBlock_def hp setBlock_def deleteTopLines_def
            getScrollbackLength_def)
    have rows': "frameRows s' = frameRows s1"
      by (rule ext) (simp add: s'_def frameRows_def getBlock_def)
    have bf': "blockFrames s' = drop k bfs" by (simp add: s'_def)
    have "retainedRows s' = sum_list (map (frameRows s1) (drop k bfs))"
      by (simp add: retainedRows_def rows' bf')
    also have "\<dots> = frameRows s frame - (h' - m)
                   + sum_list (map (frameRows s) (drop (Suc k) bfs))"
      by (simp add: dk own other)
    finally have total': "retainedRows s' = frameRows s frame - (h' - m)
                   + sum_list (map (frameRows s) (drop (Suc k) bfs))" .
    have "h' = - rows sz + (frameRows s frame + sum_list (map (frameRows s) (drop (Suc k) bfs)))"
      using h'eq dk by (simp add: k_def)
    with total' have fin: "retainedRows s' - rows sz = m" by simp
    have "enforceScrollbackLinesSize (Some sz) m s = Inr s'" by (simp add: e1 e2 s'_def)
    moreover have "blockFrames s' = drop k (blockFrames s)" by (simp add: s'_def bfs_def)
    ultimately show ?thesis using fin by (intro exI [of _ s'] exI [of _ k]) simp
  qed
qed

end
